theory Spec2Isabelle
  imports Main "HOL-Library.Monad_Syntax"
begin

section \<open>The composed source AST and the position resolver\<close>

text \<open>
  The AST is the one \<^verbatim>\<open>yaml-js\<close> composes: a scalar node holds its text, a sequence node
  its item nodes, a mapping node its (key node, value node) pairs. Every node carries
  \<^verbatim>\<open>start_mark.pointer\<close> and \<^verbatim>\<open>end_mark.pointer\<close>, the offsets of its first character
  and of the character after its last one.
\<close>

datatype ast =
    ScalarNode string nat nat
  | SequenceNode "ast list" nat nat
  | MappingNode "(ast \<times> ast) list" nat nat

fun start_mark :: "ast \<Rightarrow> nat" where
  "start_mark (ScalarNode _ s _) = s"
| "start_mark (SequenceNode _ s _) = s"
| "start_mark (MappingNode _ s _) = s"

fun end_mark :: "ast \<Rightarrow> nat" where
  "end_mark (ScalarNode _ _ e) = e"
| "end_mark (SequenceNode _ _ e) = e"
| "end_mark (MappingNode _ _ e) = e"

text \<open>
  What the loop variable \<^verbatim>\<open>node\<close> can hold: an AST node, or a value that is not a node
  (\<^verbatim>\<open>newNode.value[index]\<close> of a mapping node is a two-element array, of a scalar node a
  one-character string). A value of the second kind has neither \<^verbatim>\<open>value\<close> nor
  \<^verbatim>\<open>start_mark\<close>, so iterating or measuring it raises a TypeError.
\<close>

datatype jsnode = Node ast | NotANode

datatype js_error = TypeError

text \<open>\<^verbatim>\<open>{start, end}\<close>: both fields are \<^verbatim>\<open>undefined\<close> until the last segment sets them.\<close>

record position =
  pos_start :: "nat option"
  pos_end :: "nat option"

text \<open>The path argument: a string (split at dots) or an array of segments.\<close>

datatype jpath = PStr string | PArr "string list"

text \<open>\<^verbatim>\<open>String.prototype.split\<close> with a one-character separator; the result is never empty.\<close>

fun split :: "char \<Rightarrow> string \<Rightarrow> string list" where
  "split sep [] = [[]]"
| "split sep (c # cs) =
     (if c = sep then [] # split sep cs
      else (case split sep cs of [] \<Rightarrow> [[c]] | p # ps \<Rightarrow> (c # p) # ps))"

definition is_digit :: "char \<Rightarrow> bool" where
  "is_digit c = (c \<in> set ''0123456789'')"

definition digit_value :: "char \<Rightarrow> nat" where
  "digit_value c = of_char c - 48"

definition is_line_terminator :: "char \<Rightarrow> bool" where
  "is_line_terminator c = (c = CHR 0x0A \<or> c = CHR 0x0D)"

text \<open>
  \<^verbatim>\<open>piece.match(/(.*)\[([0-9])+\]$/)\<close>, as the pair (\<^verbatim>\<open>match[1]\<close>,
  \<^verbatim>\<open>parseInt(match[2], 10)\<close>). The piece has to end in \<^verbatim>\<open>[\<close>, one or more digits and
  \<^verbatim>\<open>]\<close>. The repeated group \<^verbatim>\<open>([0-9])+\<close> keeps its last iteration only, so
  \<^verbatim>\<open>match[2]\<close> is the last digit. The dot does not match a line terminator and the
  pattern is not anchored on the left, so \<^verbatim>\<open>match[1]\<close> is the text between the last line
  terminator and the bracket.
\<close>

definition match_index :: "string \<Rightarrow> (string \<times> nat) option" where
  "match_index piece =
     (if piece \<noteq> [] \<and> last piece = CHR '']'' then
        (let body = rev (butlast piece);
             digits = takeWhile is_digit body;
             rest = dropWhile is_digit body
         in if digits \<noteq> [] \<and> rest \<noteq> [] \<and> hd rest = CHR ''[''
            then Some (rev (takeWhile (\<lambda>c. \<not> is_line_terminator c) (tl rest)),
                       digit_value (hd digits))
            else None)
      else None)"

text \<open>\<^verbatim>\<open>node.value[index]\<close>; \<open>None\<close> is \<^verbatim>\<open>undefined\<close>.\<close>

fun value_at :: "ast \<Rightarrow> nat \<Rightarrow> jsnode option" where
  "value_at (SequenceNode xs _ _) i = (if i < length xs then Some (Node (xs ! i)) else None)"
| "value_at (MappingNode ps _ _) i = (if i < length ps then Some NotANode else None)"
| "value_at (ScalarNode s _ _) i = (if i < length s then Some NotANode else None)"

text \<open>\<^verbatim>\<open>subNode[0].value === piece\<close>: only a scalar key holds a string.\<close>

fun key_is :: "ast \<Rightarrow> string \<Rightarrow> bool" where
  "key_is (ScalarNode s _ _) piece = (s = piece)"
| "key_is _ piece = False"

text \<open>
  \<^verbatim>\<open>subNode[1].value.indexOf('#') === 0\<close>: the value of a sequence or mapping node is an
  array of nodes, where \<^verbatim>\<open>indexOf('#')\<close> is -1.
\<close>

fun internal_ref :: "ast \<Rightarrow> string option" where
  "internal_ref (ScalarNode s _ _) = (if s \<noteq> [] \<and> hd s = CHR ''#'' then Some s else None)"
| "internal_ref _ = None"

text \<open>
  The outcome of the \<^verbatim>\<open>for\<close> loop over \<^verbatim>\<open>node.value\<close>: a TypeError, or the values of
  \<^verbatim>\<open>newNode\<close> (\<open>None\<close> when falsy), \<^verbatim>\<open>pieces\<close>, \<^verbatim>\<open>start\<close> and \<^verbatim>\<open>end\<close> after it.
\<close>

datatype scan_result =
    ScanThrows
  | ScanDone "jsnode option" "string list" "nat option" "nat option"

fun scan :: "ast \<Rightarrow> (ast \<times> ast) list \<Rightarrow> string \<Rightarrow> nat option \<Rightarrow> string list \<Rightarrow>
    nat option \<Rightarrow> nat option \<Rightarrow> scan_result" where
  "scan root [] piece index pieces start end' = ScanDone None pieces start end'"
| "scan root ((k, v) # rest) piece index pieces start end' =
     (if key_is k piece then
        (if pieces \<noteq> [] then
           (case index of
              None \<Rightarrow> ScanDone (Some (Node v)) pieces start end'
            | Some i \<Rightarrow> ScanDone (value_at v i) pieces start end')
         else
           (case index of
              Some i \<Rightarrow>
                (case value_at v i of
                   Some (Node n) \<Rightarrow>
                     ScanDone (Some (Node n)) pieces (Some (start_mark n)) (Some (end_mark n))
                 | _ \<Rightarrow> ScanThrows)
            | None \<Rightarrow>
                ScanDone (Some (Node k)) pieces (Some (start_mark k)) (Some (end_mark v))))
      else if key_is k ''$ref'' then
        (case internal_ref v of
           Some r \<Rightarrow>
             ScanDone (Some (Node root)) (split CHR ''/'' (drop 2 r) @ [piece] @ pieces)
               start end'
         | None \<Rightarrow> scan root rest piece index pieces start end')
      else scan root rest piece index pieces start end')"

text \<open>\<^verbatim>\<open>node.value\<close> as the loop iterates it: only a mapping node yields pairs.\<close>

fun pairs_of :: "ast \<Rightarrow> (ast \<times> ast) list" where
  "pairs_of (MappingNode ps _ _) = ps"
| "pairs_of _ = []"

text \<open>\<^verbatim>\<open>pieces.shift()\<close>: the removed first element (\<open>None\<close> for \<^verbatim>\<open>undefined\<close>).\<close>

fun shift :: "'a list \<Rightarrow> 'a option \<times> 'a list" where
  "shift [] = (None, [])"
| "shift (x # xs) = (Some x, xs)"

text \<open>
  The \<^verbatim>\<open>while (piece)\<close> loop. A cycle of internal references makes it run forever, so
  the function is partial: \<open>None\<close> is "does not return", \<open>Some (Inl TypeError)\<close> a raised
  TypeError, \<open>Some (Inr None)\<close> the value \<^verbatim>\<open>null\<close>.
\<close>

partial_function (option) resolve ::
  "ast \<Rightarrow> jsnode \<Rightarrow> string list \<Rightarrow> string option \<Rightarrow> nat option \<Rightarrow> nat option \<Rightarrow>
     (js_error + position option) option" where
  "resolve root node pieces piece start end' =
     (case piece of
        None \<Rightarrow> Some (Inr (Some \<lparr>pos_start = start, pos_end = end'\<rparr>))
      | Some p \<Rightarrow>
          if p = [] then Some (Inr (Some \<lparr>pos_start = start, pos_end = end'\<rparr>))
          else
            (case node of
               NotANode \<Rightarrow> Some (Inl TypeError)
             | Node n \<Rightarrow>
                 (case (case match_index p of
                          Some (q, i) \<Rightarrow> scan root (pairs_of n) q (Some i) pieces start end'
                        | None \<Rightarrow> scan root (pairs_of n) p None pieces start end') of
                    ScanThrows \<Rightarrow> Some (Inl TypeError)
                  | ScanDone None pieces' start' end'' \<Rightarrow> Some (Inr None)
                  | ScanDone (Some node') pieces' start' end'' \<Rightarrow>
                      resolve root node' (snd (shift pieces')) (fst (shift pieces'))
                        start' end'')))"

declare resolve.simps [code]

definition getPosition :: "ast \<Rightarrow> jpath \<Rightarrow> (js_error + position option) option" where
  "getPosition ast path =
     (let pieces = (case path of PArr ps \<Rightarrow> ps | PStr s \<Rightarrow> split CHR ''.'' s)
      in resolve ast (Node ast) (snd (shift pieces)) (fst (shift pieces)) None None)"

section \<open>JavaScript values\<close>

text \<open>
  A loaded document is a tree of JSON values. An object is the list of its members in
  the order JavaScript enumerates them. \<^verbatim>\<open>undefined\<close> is no JSON value: where the source
  can meet it, the model has a \<open>json option\<close> and \<open>None\<close> stands for it.
\<close>

datatype json =
    JNull
  | JBool bool
  | JNum int
  | JStr string
  | JArr "json list"
  | JObj "(string \<times> json) list"

fun truthy :: "json option \<Rightarrow> bool" where
  "truthy None = False"
| "truthy (Some JNull) = False"
| "truthy (Some (JBool b)) = b"
| "truthy (Some (JNum n)) = (n \<noteq> 0)"
| "truthy (Some (JStr s)) = (s \<noteq> [])"
| "truthy (Some (JArr _)) = True"
| "truthy (Some (JObj _)) = True"

definition digit_char :: "nat \<Rightarrow> char" where
  "digit_char d = char_of (48 + d)"

fun show_nat :: "nat \<Rightarrow> string" where
  "show_nat n = (if n < 10 then [digit_char n] else show_nat (n div 10) @ [digit_char (n mod 10)])"

declare show_nat.simps [simp del]

definition show_int :: "int \<Rightarrow> string" where
  "show_int i = (if i < 0 then CHR ''-'' # show_nat (nat (- i)) else show_nat (nat i))"

text \<open>
  Reading the member \<^verbatim>\<open>v[key]\<close> of a value other than \<^verbatim>\<open>null\<close>: an object has its
  members, an array and a string have \<^verbatim>\<open>length\<close> and their indices, a number or a
  boolean has nothing.
\<close>

definition index_of_key :: "string \<Rightarrow> nat \<Rightarrow> nat option" where
  "index_of_key key n = List.find (\<lambda>i. show_nat i = key) [0 ..< n]"

fun member_of :: "json \<Rightarrow> string \<Rightarrow> json option" where
  "member_of (JObj kvs) key = map_of kvs key"
| "member_of (JArr xs) key =
     (if key = ''length'' then Some (JNum (int (length xs)))
      else map_option (\<lambda>i. xs ! i) (index_of_key key (length xs)))"
| "member_of (JStr s) key =
     (if key = ''length'' then Some (JNum (int (length s)))
      else map_option (\<lambda>i. JStr [s ! i]) (index_of_key key (length s)))"
| "member_of _ key = None"

text \<open>
  Reading a member of any value: of \<^verbatim>\<open>null\<close> it raises a TypeError, which is \<open>None\<close>
  here and in every function below that returns an option around its result.
\<close>

definition get :: "json \<Rightarrow> string \<Rightarrow> json option option" where
  "get v key = (if v = JNull then None else Some (member_of v key))"

text \<open>\<^verbatim>\<open>obj[key] = v\<close> on the member list: replaces in place, or appends.\<close>

fun put :: "string \<Rightarrow> 'a \<Rightarrow> (string \<times> 'a) list \<Rightarrow> (string \<times> 'a) list" where
  "put key v [] = [(key, v)]"
| "put key v ((k, w) # kvs) = (if k = key then (k, v) # kvs else (k, w) # put key v kvs)"

text \<open>
  The own enumerable members of a value, as a \<^verbatim>\<open>for ... in\<close> loop with a
  \<^verbatim>\<open>hasOwnProperty\<close> test goes through them: the members of an object, the indexed
  items of an array or of a string, and nothing for a number, a boolean, \<^verbatim>\<open>null\<close> or
  \<^verbatim>\<open>undefined\<close>.
\<close>

definition indexed :: "'a list \<Rightarrow> (string \<times> 'a) list" where
  "indexed xs = zip (map show_nat [0 ..< length xs]) xs"

fun entries :: "json option \<Rightarrow> (string \<times> json) list" where
  "entries (Some (JObj kvs)) = kvs"
| "entries (Some (JArr xs)) = indexed xs"
| "entries (Some (JStr s)) = indexed (map (\<lambda>c. JStr [c]) s)"
| "entries _ = []"

text \<open>
  \<^verbatim>\<open>_.each(obj, iteratee)\<close> of underscore 1.8, as the list of the calls
  \<^verbatim>\<open>iteratee(value, key)\<close>. A value whose \<^verbatim>\<open>length\<close> is a number from 0 to
  \<^verbatim>\<open>2^53 - 1\<close> is array-like: it is gone through by the indices below its length, the
  key is the index as a number and the value is \<^verbatim>\<open>obj[index]\<close>, which can be
  \<^verbatim>\<open>undefined\<close>. This holds of arrays and strings, and of every object with such a
  member \<^verbatim>\<open>length\<close>. Any other object is gone through by its own keys. A number, a
  boolean, \<^verbatim>\<open>null\<close> and \<^verbatim>\<open>undefined\<close> have no keys. Returning \<^verbatim>\<open>false\<close> from the
  iteratee does not end the loop.
\<close>

definition array_like :: "json \<Rightarrow> nat option" where
  "array_like v =
     (case member_of v ''length'' of
        Some (JNum n) \<Rightarrow> if 0 \<le> n \<and> n \<le> 9007199254740991 then Some (nat n) else None
      | _ \<Rightarrow> None)"

definition each :: "json option \<Rightarrow> (json \<times> json option) list" where
  "each obj =
     (case obj of
        None \<Rightarrow> []
      | Some v \<Rightarrow>
          (case array_like v of
             Some n \<Rightarrow> map (\<lambda>i. (JNum (int i), member_of v (show_nat i))) [0 ..< n]
           | None \<Rightarrow>
               (case v of
                  JObj kvs \<Rightarrow> map (\<lambda>(k, x). (JStr k, Some x)) kvs
                | _ \<Rightarrow> [])))"

text \<open>
  \<^verbatim>\<open>_.allKeys(obj)\<close> with the values, the members \<^verbatim>\<open>_.omit\<close> chooses from: those of an
  object, the indexed items of an array, and nothing for any other value. The result
  of \<^verbatim>\<open>_.omit\<close> is a new object, here its member list.
\<close>

fun allKeys :: "json option \<Rightarrow> (string \<times> json) list" where
  "allKeys (Some (JObj kvs)) = kvs"
| "allKeys (Some (JArr xs)) = indexed xs"
| "allKeys _ = []"

text \<open>\<^verbatim>\<open>isExtension(value, key)\<close>: \<^verbatim>\<open>key.indexOf('x-') === 0\<close>.\<close>

definition isExtension :: "string \<Rightarrow> bool" where
  "isExtension key = (take 2 key = ''x-'')"

text \<open>\<^verbatim>\<open>_.omit(obj, key, ...)\<close> and \<^verbatim>\<open>_.omit(obj, predicate)\<close>, on the member list.\<close>

definition omit :: "string list \<Rightarrow> (string \<times> 'a) list \<Rightarrow> (string \<times> 'a) list" where
  "omit keys kvs = filter (\<lambda>(k, v). k \<notin> set keys) kvs"

definition omit_extensions :: "(string \<times> 'a) list \<Rightarrow> (string \<times> 'a) list" where
  "omit_extensions kvs = filter (\<lambda>(k, v). \<not> isExtension k) kvs"

text \<open>
  The string a template literal gives for a value (\<^verbatim>\<open>String(v)\<close>); an array joins its
  items with commas, \<^verbatim>\<open>null\<close> items as the empty string.
\<close>

fun to_string :: "json option \<Rightarrow> string" where
  "to_string None = ''undefined''"
| "to_string (Some JNull) = ''null''"
| "to_string (Some (JBool b)) = (if b then ''true'' else ''false'')"
| "to_string (Some (JNum n)) = show_int n"
| "to_string (Some (JStr s)) = s"
| "to_string (Some (JArr xs)) =
     (case xs of
        [] \<Rightarrow> []
      | y # ys \<Rightarrow>
          (if y = JNull then [] else to_string (Some y)) @
          concat (map (\<lambda>x. CHR '','' # (if x = JNull then [] else to_string (Some x))) ys))"
| "to_string (Some (JObj _)) = ''[object Object]''"

text \<open>\<^verbatim>\<open>String.prototype.toUpperCase\<close> on ASCII letters.\<close>

definition toUpperCase :: "string \<Rightarrow> string" where
  "toUpperCase s =
     map (\<lambda>c. if of_char c \<ge> (97::nat) \<and> of_char c \<le> (122::nat)
               then char_of (of_char c - (32::nat)) else c) s"

text \<open>
  The number a relational operator makes of a value (\<^verbatim>\<open>ToNumber\<close> of its primitive).
  A finite number is held exactly, as a mantissa and a power of ten; the rounding of
  JavaScript's doubles is not modelled. \<^verbatim>\<open>undefined\<close> and an object are NaN, \<^verbatim>\<open>null\<close>
  is 0, an array converts as the text that joins its items. Text converts after
  trimming white space: empty text is 0; a decimal literal with an optional sign,
  fraction and exponent, \<^verbatim>\<open>Infinity\<close> with an optional sign, and an unsigned
  hexadecimal, octal or binary literal have their value; any other text is NaN.
\<close>

datatype number = NaN | Decimal int int | PlusInfinity | MinusInfinity

definition is_space :: "char \<Rightarrow> bool" where
  "is_space c = (of_char c \<in> {9, 10, 11, 12, 13, 32, 160 :: nat})"

definition trim :: "string \<Rightarrow> string" where
  "trim s = rev (dropWhile is_space (rev (dropWhile is_space s)))"

definition radix_digit :: "char \<Rightarrow> nat option" where
  "radix_digit c =
     (let n = (of_char c :: nat)
      in if 48 \<le> n \<and> n \<le> 57 then Some (n - 48)
         else if 97 \<le> n \<and> n \<le> 102 then Some (n - 87)
         else if 65 \<le> n \<and> n \<le> 70 then Some (n - 55)
         else None)"

definition radix_value :: "nat \<Rightarrow> string \<Rightarrow> nat" where
  "radix_value b ds =
     foldl (\<lambda>n c. case radix_digit c of Some d \<Rightarrow> b * n + d | None \<Rightarrow> n) 0 ds"

definition radix_literal :: "nat \<Rightarrow> string \<Rightarrow> number" where
  "radix_literal b ds =
     (if ds \<noteq> [] \<and> list_all (\<lambda>c. case radix_digit c of Some d \<Rightarrow> d < b | None \<Rightarrow> False) ds
      then Decimal (int (radix_value b ds)) 0 else NaN)"

text \<open>The exponent part that ends a decimal literal; no text is the exponent 0.\<close>

definition exponent_part :: "string \<Rightarrow> int option" where
  "exponent_part s =
     (case s of
        [] \<Rightarrow> Some 0
      | c # cs \<Rightarrow>
          if c = CHR ''e'' \<or> c = CHR ''E'' then
            (let negative = (cs \<noteq> [] \<and> hd cs = CHR ''-'');
                 ds = (if cs \<noteq> [] \<and> (hd cs = CHR ''-'' \<or> hd cs = CHR ''+'') then tl cs else cs)
             in if ds \<noteq> [] \<and> list_all is_digit ds
                then Some (if negative then - int (radix_value 10 ds) else int (radix_value 10 ds))
                else None)
          else None)"

definition unsigned_decimal :: "string \<Rightarrow> number" where
  "unsigned_decimal s =
     (if s = ''Infinity'' then PlusInfinity
      else
        (let whole = takeWhile is_digit s;
             rest = dropWhile is_digit s;
             point = (rest \<noteq> [] \<and> hd rest = CHR ''.'');
             fraction = (if point then takeWhile is_digit (tl rest) else []);
             rest = (if point then dropWhile is_digit (tl rest) else rest)
         in if whole = [] \<and> fraction = [] then NaN
            else
              (case exponent_part rest of
                 None \<Rightarrow> NaN
               | Some e \<Rightarrow>
                   Decimal (int (radix_value 10 (whole @ fraction))) (e - int (length fraction)))))"

definition negated :: "number \<Rightarrow> number" where
  "negated x =
     (case x of
        NaN \<Rightarrow> NaN
      | Decimal m e \<Rightarrow> Decimal (- m) e
      | PlusInfinity \<Rightarrow> MinusInfinity
      | MinusInfinity \<Rightarrow> PlusInfinity)"

definition string_to_number :: "string \<Rightarrow> number" where
  "string_to_number s =
     (let t = trim s
      in if t = [] then Decimal 0 0
         else if take 2 t = ''0x'' \<or> take 2 t = ''0X'' then radix_literal 16 (drop 2 t)
         else if take 2 t = ''0o'' \<or> take 2 t = ''0O'' then radix_literal 8 (drop 2 t)
         else if take 2 t = ''0b'' \<or> take 2 t = ''0B'' then radix_literal 2 (drop 2 t)
         else if hd t = CHR ''-'' then negated (unsigned_decimal (tl t))
         else if hd t = CHR ''+'' then unsigned_decimal (tl t)
         else unsigned_decimal t)"

fun to_number :: "json option \<Rightarrow> number" where
  "to_number None = NaN"
| "to_number (Some JNull) = Decimal 0 0"
| "to_number (Some (JBool b)) = Decimal (if b then 1 else 0) 0"
| "to_number (Some (JNum n)) = Decimal n 0"
| "to_number (Some (JStr s)) = string_to_number s"
| "to_number (Some (JArr xs)) = string_to_number (to_string (Some (JArr xs)))"
| "to_number (Some (JObj kvs)) = NaN"

text \<open>\<^verbatim>\<open>v > n\<close> for an integer \<open>n\<close>; a comparison with NaN is false.\<close>

definition greater_than :: "json option \<Rightarrow> int \<Rightarrow> bool" where
  "greater_than v n =
     (case to_number v of
        NaN \<Rightarrow> False
      | Decimal m e \<Rightarrow> if 0 \<le> e then m * 10 ^ nat e > n else m > n * 10 ^ nat (- e)
      | PlusInfinity \<Rightarrow> True
      | MinusInfinity \<Rightarrow> False)"

text \<open>
  \<^verbatim>\<open>a === b\<close> for two values read from the document at different places: primitive
  values are equal when they are the same, an array or an object is equal to itself
  only. (Two places of a document hold the same object only where its YAML text used
  an alias, which the tree of values here does not record.)
\<close>

fun strict_equals :: "json option \<Rightarrow> json option \<Rightarrow> bool" where
  "strict_equals (Some (JArr _)) _ = False"
| "strict_equals (Some (JObj _)) _ = False"
| "strict_equals a b = (a = b)"

text \<open>Option-valued steps in sequence: the first that has no result ends the run.\<close>

fun map_opt :: "('a \<Rightarrow> 'b option) \<Rightarrow> 'a list \<Rightarrow> 'b list option" where
  "map_opt f [] = Some []"
| "map_opt f (x # xs) =
     (case f x of
        None \<Rightarrow> None
      | Some y \<Rightarrow> (case map_opt f xs of None \<Rightarrow> None | Some ys \<Rightarrow> Some (y # ys)))"

fun fold_opt :: "('a \<Rightarrow> 's \<Rightarrow> 's option) \<Rightarrow> 'a list \<Rightarrow> 's \<Rightarrow> 's option" where
  "fold_opt f [] s = Some s"
| "fold_opt f (x # xs) s = (case f x s of None \<Rightarrow> None | Some s' \<Rightarrow> fold_opt f xs s')"

section \<open>Refract elements\<close>

text \<open>
  The output tree is built from the element classes of the \<^verbatim>\<open>minim\<close> namespace, which
  the caller passes in. Every element has a name, a \<^verbatim>\<open>meta\<close> object (title,
  description, classes, links), an \<^verbatim>\<open>attributes\<close> object, and a content: nothing, a
  plain value, a list of elements, the key and value of a member, or the
  (offset, length) pairs of a source map.
\<close>

datatype 'e content =
    CUndefined
  | CValue json
  | CElements "'e list"
  | CMember "'e option" "'e option"
  | CSourceMap "(nat option \<times> int option) list"

datatype element =
  Element (element: string) (meta: "(string \<times> element) list")
    (attributes: "(string \<times> element) list") (content: "element content")

text \<open>The element \<^verbatim>\<open>minim\<close> makes of a plain value handed to a constructor or a setter.\<close>

fun refract :: "json \<Rightarrow> element" where
  "refract JNull = Element ''null'' [] [] (CValue JNull)"
| "refract (JBool b) = Element ''boolean'' [] [] (CValue (JBool b))"
| "refract (JNum n) = Element ''number'' [] [] (CValue (JNum n))"
| "refract (JStr s) = Element ''string'' [] [] (CValue (JStr s))"
| "refract (JArr xs) = Element ''array'' [] [] (CElements (map refract xs))"
| "refract (JObj kvs) =
     Element ''object'' [] []
       (CElements (map (\<lambda>kv. Element ''member'' [] []
          (CMember (Some (Element ''string'' [] [] (CValue (JStr (fst kv)))))
                   (Some (refract (snd kv))))) kvs))"

definition new_element :: "string \<Rightarrow> element content \<Rightarrow> element" where
  "new_element name c = Element name [] [] c"

definition set_meta :: "string \<Rightarrow> element \<Rightarrow> element \<Rightarrow> element" where
  "set_meta key v e = Element (element e) (put key v (meta e)) (attributes e) (content e)"

definition set_attribute :: "string \<Rightarrow> element \<Rightarrow> element \<Rightarrow> element" where
  "set_attribute key v e = Element (element e) (meta e) (put key v (attributes e)) (content e)"

definition get_meta :: "element \<Rightarrow> string \<Rightarrow> element option" where
  "get_meta e key = map_of (meta e) key"

definition get_attribute :: "element \<Rightarrow> string \<Rightarrow> element option" where
  "get_attribute e key = map_of (attributes e) key"

text \<open>The elements of a content list; a content of another kind has none.\<close>

fun elements_of :: "element content \<Rightarrow> element list" where
  "elements_of (CElements es) = es"
| "elements_of _ = []"

definition children :: "element \<Rightarrow> element list" where
  "children e = elements_of (content e)"

text \<open>\<^verbatim>\<open>e.content.push(x)\<close> and \<^verbatim>\<open>e.push(x)\<close>.\<close>

definition push :: "element \<Rightarrow> element \<Rightarrow> element" where
  "push x e = Element (element e) (meta e) (attributes e) (CElements (children e @ [x]))"

text \<open>\<^verbatim>\<open>e.classes.push(c)\<close>: the classes are the array element \<^verbatim>\<open>meta.classes\<close>.\<close>

definition classes :: "element \<Rightarrow> string list" where
  "classes e =
     (case get_meta e ''classes'' of
        None \<Rightarrow> []
      | Some cs \<Rightarrow> concat (map (\<lambda>c. case content c of CValue (JStr s) \<Rightarrow> [s] | _ \<Rightarrow> [])
          (children cs)))"

definition push_class :: "string \<Rightarrow> element \<Rightarrow> element" where
  "push_class c e =
     set_meta ''classes''
       (push (refract (JStr c))
          (case get_meta e ''classes'' of None \<Rightarrow> new_element ''array'' (CElements []) | Some cs \<Rightarrow> cs))
       e"

text \<open>\<^verbatim>\<open>new MemberElement(key, value)\<close>; an \<^verbatim>\<open>undefined\<close> key or value stays out.\<close>

definition new_member :: "json option \<Rightarrow> json option \<Rightarrow> element" where
  "new_member key v = new_element ''member'' (CMember (map_option refract key) (map_option refract v))"

fun member_key :: "element \<Rightarrow> element option" where
  "member_key (Element _ _ _ (CMember k v)) = k"
| "member_key _ = None"

fun member_value :: "element \<Rightarrow> element option" where
  "member_value (Element _ _ _ (CMember k v)) = v"
| "member_value _ = None"

text \<open>\<^verbatim>\<open>if (v) { x = f(v, x) }\<close>: the guard is a truthiness test.\<close>

definition when_truthy :: "json option \<Rightarrow> (json \<Rightarrow> 'a \<Rightarrow> 'a) \<Rightarrow> 'a \<Rightarrow> 'a" where
  "when_truthy v f x = (case v of None \<Rightarrow> x | Some j \<Rightarrow> if truthy (Some j) then f j x else x)"

section \<open>The parameter classifier\<close>

text \<open>
  \<^verbatim>\<open>convertParameterToElement(minim, parameter)\<close>. Reading \<^verbatim>\<open>parameter.type\<close> of
  \<^verbatim>\<open>null\<close> raises a TypeError. The member is made with its key only; the typed
  placeholder becomes its value.
\<close>

definition placeholder :: "json option \<Rightarrow> element" where
  "placeholder type =
     (if type = Some (JStr ''string'') then new_element ''string'' (CValue (JStr []))
      else if type = Some (JStr ''integer'') \<or> type = Some (JStr ''number'')
        then new_element ''number'' CUndefined
      else if type = Some (JStr ''boolean'') then new_element ''boolean'' CUndefined
      else if type = Some (JStr ''array'') then new_element ''array'' CUndefined
      else new_element ''string'' (CValue (JStr [])))"

definition convertParameterToElement :: "json \<Rightarrow> element option" where
  "convertParameterToElement parameter =
     (if parameter = JNull then None
      else
        (let memberValue = placeholder (member_of parameter ''type'');
             member = new_member (member_of parameter ''name'') None;
             member = when_truthy (member_of parameter ''description'')
                        (\<lambda>d. set_meta ''description'' (refract d)) member;
             member = when_truthy (member_of parameter ''required'')
                        (\<lambda>r. set_attribute ''typeAttributes'' (refract (JArr [JStr ''required''])))
                        member;
             memberValue = when_truthy (member_of parameter ''default'')
                             (\<lambda>d. set_attribute ''default'' (refract d)) memberValue
         in Some (Element (element member) (meta member) (attributes member)
                    (CMember (member_key member) (Some memberValue)))))"

section \<open>Source maps and annotations\<close>

text \<open>
  A caller of the resolver gets its value when it returns one; a TypeError it raises, or
  its not returning, leaves the caller without a result (\<open>None\<close>).
\<close>

definition position_of :: "ast \<Rightarrow> jpath \<Rightarrow> position option option" where
  "position_of ast path =
     (case getPosition ast path of Some (Inr p) \<Rightarrow> Some p | _ \<Rightarrow> None)"

text \<open>
  \<^verbatim>\<open>[new SourceMap([[position.start, position.end - position.start]])]\<close>; the
  difference is NaN (\<open>None\<close>) when an operand is \<^verbatim>\<open>undefined\<close>.
\<close>

definition sourceMap :: "position \<Rightarrow> element" where
  "sourceMap p =
     new_element ''array'' (CElements [new_element ''sourceMap''
       (CSourceMap [(pos_start p,
          (case (pos_start p, pos_end p) of
             (Some s, Some e) \<Rightarrow> Some (int e - int s)
           | _ \<Rightarrow> None))])])"

definition makeSourceMap :: "ast \<Rightarrow> element \<Rightarrow> string \<Rightarrow> element option" where
  "makeSourceMap ast e path =
     (case position_of ast (PStr path) of
        None \<Rightarrow> None
      | Some None \<Rightarrow> Some e
      | Some (Some p) \<Rightarrow> Some (set_attribute ''sourceMap'' (sourceMap p) e))"

text \<open>
  \<^verbatim>\<open>if (generateSourceMap && ast) { setupSourceMap(element, path); }\<close>, the form of every
  call in the builder.
\<close>

definition setupSourceMap :: "bool \<Rightarrow> ast option \<Rightarrow> string \<Rightarrow> element \<Rightarrow> element option" where
  "setupSourceMap generateSourceMap ast path e =
     (case ast of
        None \<Rightarrow> Some e
      | Some a \<Rightarrow> if generateSourceMap then makeSourceMap a e path else Some e)"

record annotation_info =
  info_type :: string
  info_code :: int
  info_fragment :: string

definition CANNOT_PARSE :: annotation_info where
  "CANNOT_PARSE = \<lparr>info_type = ''error'', info_code = 1, info_fragment = ''yaml-parser''\<rparr>"

definition AST_UNAVAILABLE :: annotation_info where
  "AST_UNAVAILABLE = \<lparr>info_type = ''warning'', info_code = 2, info_fragment = ''yaml-parser''\<rparr>"

definition DATA_LOST :: annotation_info where
  "DATA_LOST =
     \<lparr>info_type = ''warning'', info_code = 3, info_fragment = ''refract-not-supported''\<rparr>"

definition VALIDATION_ERROR :: annotation_info where
  "VALIDATION_ERROR =
     \<lparr>info_type = ''warning'', info_code = 4, info_fragment = ''swagger-validation''\<rparr>"

text \<open>\<^verbatim>\<open>ast && path\<close>: an empty string is falsy, an array (also an empty one) is truthy.\<close>

fun path_truthy :: "jpath option \<Rightarrow> bool" where
  "path_truthy None = False"
| "path_truthy (Some (PStr s)) = (s \<noteq> [])"
| "path_truthy (Some (PArr ps)) = True"

text \<open>
  \<^verbatim>\<open>makeAnnotation(Annotation, Link, SourceMap, ast, result, info, path, message)\<close>
  appends the annotation to \<^verbatim>\<open>result.content\<close>, which the model returns. The annotation
  is completed after it is appended; the list holds the completed one.
\<close>

definition annotation_link :: "annotation_info \<Rightarrow> element" where
  "annotation_link info =
     set_attribute ''href''
       (refract (JStr (''http://docs.apiary.io/validations/swagger#'' @ info_fragment info)))
       (set_attribute ''relation'' (refract (JStr ''origin'')) (new_element ''link'' CUndefined))"

definition new_annotation :: "annotation_info \<Rightarrow> string \<Rightarrow> element" where
  "new_annotation info message =
     (let annotation = new_element ''annotation'' (CValue (JStr message));
          annotation = push_class (info_type info) annotation;
          annotation = set_attribute ''code'' (refract (JNum (info_code info))) annotation
      in if info_fragment info \<noteq> []
         then set_meta ''links''
                (new_element ''array'' (CElements [annotation_link info])) annotation
         else annotation)"

definition makeAnnotation ::
  "ast option \<Rightarrow> element list \<Rightarrow> annotation_info \<Rightarrow> jpath option \<Rightarrow> string \<Rightarrow>
     element list option" where
  "makeAnnotation ast result info path message =
     (let annotation = new_annotation info message
      in case (ast, path) of
           (Some a, Some p) \<Rightarrow>
             (if path_truthy path then
                (case position_of a p of
                   None \<Rightarrow> None
                 | Some None \<Rightarrow> Some (result @ [annotation])
                 | Some (Some pos) \<Rightarrow>
                     (if pos_start pos \<noteq> None \<and> pos_end pos \<noteq> None
                      then Some (result @ [set_attribute ''sourceMap'' (sourceMap pos) annotation])
                      else Some (result @ [annotation])))
              else Some (result @ [annotation]))
         | _ \<Rightarrow> Some (result @ [annotation]))"

section \<open>Tags as resource groups\<close>

text \<open>
  The callback of the inner \<^verbatim>\<open>_.each(path, (operation) => ...)\<close>, from the value of
  \<^verbatim>\<open>tag\<close> before an operation to its value after. \<^verbatim>\<open>tag\<close> starts as \<^verbatim>\<open>null\<close>. Reading
  \<^verbatim>\<open>operation.tags\<close> of \<^verbatim>\<open>null\<close> or \<^verbatim>\<open>undefined\<close> raises a TypeError. Each
  \<^verbatim>\<open>return false\<close> ends this call of the callback; \<^verbatim>\<open>_.each\<close> goes on with the next
  operation.
\<close>

definition operation_tag :: "json option \<Rightarrow> json option \<Rightarrow> json option option" where
  "operation_tag tag operation =
     (case operation of
        None \<Rightarrow> None
      | Some op \<Rightarrow>
          if op = JNull then None
          else
            (case member_of op ''tags'' of
               None \<Rightarrow> Some tag
             | Some tags \<Rightarrow>
                 if truthy (Some tags) \<and> truthy (member_of tags ''length'') then
                   (if greater_than (member_of tags ''length'') 1 then Some tag
                    else if tag = Some JNull then Some (member_of tags ''0'')
                    else if \<not> strict_equals tag (member_of tags ''0'') then Some tag
                    else Some tag)
                 else Some tag))"

fun path_tag :: "json option \<Rightarrow> json option list \<Rightarrow> json option option" where
  "path_tag tag [] = Some tag"
| "path_tag tag (operation # operations) =
     (case operation_tag tag operation of
        None \<Rightarrow> None
      | Some tag' \<Rightarrow> path_tag tag' operations)"

text \<open>
  \<^verbatim>\<open>path['x-group-name'] = tag\<close> writes a member of an object; an array path item would
  take the name as a property beside its items, which a JSON array here cannot hold,
  so the model leaves an array as it is.
\<close>

definition set_group_name :: "json \<Rightarrow> json \<Rightarrow> json" where
  "set_group_name tag path =
     (case path of JObj kvs \<Rightarrow> JObj (put ''x-group-name'' tag kvs) | _ \<Rightarrow> path)"

text \<open>
  The tag the callback of the outer \<^verbatim>\<open>_.each(api.paths, (path) => ...)\<close> ends with, when
  it is truthy: the callback then writes it to the path and pushes it to \<^verbatim>\<open>tags\<close>.
\<close>

definition group_path :: "json option \<Rightarrow> json option option" where
  "group_path path =
     (case (if truthy path then path_tag (Some JNull) (map snd (each path))
            else Some (Some JNull)) of
        None \<Rightarrow> None
      | Some tag \<Rightarrow> if truthy tag then Some tag else Some None)"

text \<open>
  The path object is changed in place, so the value \<^verbatim>\<open>api.paths\<close> holds under the key of
  the path is the changed one.
\<close>

definition write_member :: "json \<Rightarrow> json \<Rightarrow> json \<Rightarrow> json" where
  "write_member obj key v =
     (case obj of
        JObj kvs \<Rightarrow> JObj (put (to_string (Some key)) v kvs)
      | JArr xs \<Rightarrow> (case key of JNum i \<Rightarrow> JArr (xs[nat i := v]) | _ \<Rightarrow> obj)
      | _ \<Rightarrow> obj)"

definition group_step ::
  "json \<times> json option \<Rightarrow> json \<times> json list \<Rightarrow> (json \<times> json list) option" where
  "group_step item state =
     (case (item, state) of ((key, path), (paths, tags)) \<Rightarrow>
        (case group_path path of
           None \<Rightarrow> None
         | Some None \<Rightarrow> Some (paths, tags)
         | Some (Some tag) \<Rightarrow>
             (case path of
                None \<Rightarrow> Some (paths, tags)
              | Some p \<Rightarrow> Some (write_member paths key (set_group_name tag p), tags @ [tag]))))"

text \<open>
  \<^verbatim>\<open>useResourceGroups(api)\<close>: the document after the call, and the value returned,
  \<^verbatim>\<open>tags.length > 0\<close>.
\<close>

definition useResourceGroups :: "json \<Rightarrow> (json \<times> bool) option" where
  "useResourceGroups api =
     (if api = JNull then None
      else
        (case member_of api ''paths'' of
           None \<Rightarrow> Some (api, False)
         | Some paths \<Rightarrow>
             if truthy (Some paths) then
               (case fold_opt group_step (each (Some paths)) (paths, []) of
                  None \<Rightarrow> None
                | Some (paths', tags) \<Rightarrow>
                    Some ((case api of
                             JObj members \<Rightarrow> JObj (put ''paths'' paths' members)
                           | _ \<Rightarrow> api),
                          tags \<noteq> []))
             else Some (api, False)))"

section \<open>The collaborators of the builder\<close>

text \<open>
  What \<^verbatim>\<open>parse\<close> calls outside this file, as parameters of the model.
  \<^item> \<open>safeLoad\<close>: \<^verbatim>\<open>yaml.safeLoad\<close>; \<open>None\<close> when it throws. A load that yields
    \<^verbatim>\<open>undefined\<close> counts as \<^verbatim>\<open>null\<close>: reading a member of either raises a TypeError.
  \<^item> \<open>compose\<close>: \<^verbatim>\<open>yamlAst.compose\<close>; \<open>None\<close> when it throws, \<open>Some None\<close> when it
    returns no node.
  \<^item> \<open>validate\<close>: \<^verbatim>\<open>parser.validate\<close>, see below.
  \<^item> \<open>buildUriTemplate\<close>: the module \<^verbatim>\<open>./uri-template\<close>, from the base path, the path
    template, the path-level parameters and the query parameters to the href.
  \<^item> \<open>stringify\<close> and \<open>stringify_indented\<close>: \<^verbatim>\<open>JSON.stringify(v)\<close> and
    \<^verbatim>\<open>JSON.stringify(v, null, 2)\<close>.
\<close>

text \<open>
  A validation error detail has a path, a message and, sometimes, a list of inner
  details. \<open>None\<close> for \<open>inner\<close> or \<open>details\<close> is a falsy value; an empty list is truthy.
\<close>

datatype detail =
  Detail (detail_path: "jpath option") (detail_message: string) (inner: "detail list option")

record validation_error =
  details :: "detail list option"

text \<open>
  The outcome of \<^verbatim>\<open>parser.validate(loaded, callback)\<close>: the \<^verbatim>\<open>err\<close> the callback gets,
  the value of \<^verbatim>\<open>parser.api\<close> (\<open>None\<close> when \<^verbatim>\<open>undefined\<close>), and whether \<^verbatim>\<open>parser.api\<close> is
  the very object the validator was given, changed in place, rather than a new object.
\<close>

record validation =
  validation_err :: "validation_error option"
  parser_api :: "json option"
  in_place :: bool

record env =
  safeLoad :: "string \<Rightarrow> json option"
  compose :: "string \<Rightarrow> ast option option"
  validate :: "json \<Rightarrow> validation"
  buildUriTemplate :: "string \<Rightarrow> json \<Rightarrow> json \<Rightarrow> json list \<Rightarrow> string"
  stringify :: "json \<Rightarrow> string"
  stringify_indented :: "json \<Rightarrow> string"

section \<open>Transactions\<close>

text \<open>
  \<^verbatim>\<open>createAssetFromJsonSchema(minim, jsonSchema)\<close>; \<^verbatim>\<open>JSON.stringify(undefined)\<close> is
  \<^verbatim>\<open>undefined\<close>.
\<close>

definition createAssetFromJsonSchema :: "env \<Rightarrow> json option \<Rightarrow> element" where
  "createAssetFromJsonSchema E jsonSchema =
     set_attribute ''contentType'' (refract (JStr ''application/schema+json''))
       (push_class ''messageBodySchema''
          (new_element ''asset''
             (case jsonSchema of None \<Rightarrow> CUndefined | Some j \<Rightarrow> CValue (JStr (stringify E j)))))"

text \<open>
  \<^verbatim>\<open>createTransaction(minim, transition, method)\<close>. The request and the response are the
  two items of the transaction's content. The method is a key handed out by
  \<^verbatim>\<open>_.each\<close>, a string or an index: an index other than 0 is truthy and has no
  \<^verbatim>\<open>toUpperCase\<close>, which raises a TypeError. The source pushes the new transaction to
  the transition at once and completes it afterwards; the model has the caller push
  the completed transaction, see \<open>completed\<close>. \<^verbatim>\<open>toUpperCase\<close> is modelled on ASCII
  letters.
\<close>

definition new_request :: "json \<Rightarrow> element option" where
  "new_request method =
     (if truthy (Some method) then
        (case method of
           JStr s \<Rightarrow>
             Some (set_attribute ''method'' (refract (JStr (toUpperCase s)))
                     (new_element ''httpRequest'' (CElements [])))
         | _ \<Rightarrow> None)
      else Some (new_element ''httpRequest'' (CElements [])))"

definition new_response :: element where
  "new_response = new_element ''httpResponse'' (CElements [])"

definition createTransaction :: "json \<Rightarrow> element option" where
  "createTransaction method =
     map_option (\<lambda>req. new_element ''httpTransaction'' (CElements [req, new_response]))
       (new_request method)"

text \<open>\<^verbatim>\<open>transaction.request\<close> and \<^verbatim>\<open>transaction.response\<close>, the two items of the content.\<close>

fun request :: "element \<Rightarrow> element option" where
  "request (Element _ _ _ (CElements (r # _))) = Some r"
| "request _ = None"

fun response :: "element \<Rightarrow> element option" where
  "response (Element _ _ _ (CElements (_ # r # _))) = Some r"
| "response _ = None"

text \<open>The transaction with its request and response replaced by the completed ones.\<close>

definition completed :: "element \<Rightarrow> element \<Rightarrow> element \<Rightarrow> element" where
  "completed transaction req res =
     Element (element transaction) (meta transaction) (attributes transaction)
       (CElements [req, res])"

section \<open>The builder: one transaction for each example of each response\<close>

definition new_copy :: "json \<Rightarrow> element" where
  "new_copy text = new_element ''copy'' (CValue text)"

text \<open>
  A declared response header. The value is the empty string, then \<^verbatim>\<open>header.enum[0]\<close>
  when \<^verbatim>\<open>header.enum\<close> is truthy, then \<^verbatim>\<open>header.default\<close> when that is truthy.
\<close>

definition header_member ::
  "bool \<Rightarrow> ast option \<Rightarrow> string \<Rightarrow> string \<times> json \<Rightarrow> element option" where
  "header_member generateSourceMap ast base h =
     (case h of (headerName, header) \<Rightarrow>
        if header = JNull then None
        else do {
          let v = Some (JStr []);
          let v = (case member_of header ''enum'' of
                     None \<Rightarrow> v
                   | Some e \<Rightarrow> if truthy (Some e) then member_of e ''0'' else v);
          let v = (case member_of header ''default'' of
                     None \<Rightarrow> v
                   | Some d \<Rightarrow> if truthy (Some d) then Some d else v);
          member \<leftarrow> setupSourceMap generateSourceMap ast (base @ ''.headers.'' @ headerName)
                      (new_member (Some (JStr headerName)) v);
          (case member_of header ''description'' of
             None \<Rightarrow> Some member
           | Some d \<Rightarrow>
               if truthy (Some d) then do {
                 description \<leftarrow> setupSourceMap generateSourceMap ast
                   (base @ ''.headers.'' @ headerName @ ''.description'') (refract d);
                 Some (set_meta ''description'' description member)
               } else Some member)
        })"

text \<open>\<^verbatim>\<open>typeof(responseBody) === 'object'\<close> holds of objects, arrays and \<^verbatim>\<open>null\<close>.\<close>

definition formattedResponseBody :: "env \<Rightarrow> json \<Rightarrow> json" where
  "formattedResponseBody E responseBody =
     (case responseBody of
        JNull \<Rightarrow> JStr (stringify_indented E responseBody)
      | JArr _ \<Rightarrow> JStr (stringify_indented E responseBody)
      | JObj _ \<Rightarrow> JStr (stringify_indented E responseBody)
      | _ \<Rightarrow> responseBody)"

text \<open>
  \<^verbatim>\<open>responseValue.schema || (responseValue.examples && responseValue.examples.schema)\<close>,
  when truthy.
\<close>

definition response_schema :: "json \<Rightarrow> json option" where
  "response_schema responseValue =
     (if truthy (member_of responseValue ''schema'') then member_of responseValue ''schema''
      else
        (case member_of responseValue ''examples'' of
           None \<Rightarrow> None
         | Some ex \<Rightarrow>
             if truthy (Some ex) \<and> truthy (member_of ex ''schema'')
             then member_of ex ''schema'' else None))"

text \<open>The \<^verbatim>\<open>if (responseValue.description)\<close> block, on the response.\<close>

definition response_description ::
  "bool \<Rightarrow> ast option \<Rightarrow> string \<Rightarrow> json \<Rightarrow> element \<Rightarrow> element option" where
  "response_description generateSourceMap ast base responseValue res =
     (case member_of responseValue ''description'' of
        None \<Rightarrow> Some res
      | Some d \<Rightarrow>
          if truthy (Some d) then do {
            description \<leftarrow> setupSourceMap generateSourceMap ast
              (base @ ''.description'') (new_copy d);
            Some (push description res)
          } else Some res)"

text \<open>
  The headers element after the \<^verbatim>\<open>if (contentType)\<close> block and the
  \<^verbatim>\<open>if (responseValue.headers)\<close> block. The content type is a key handed out by
  \<^verbatim>\<open>_.each\<close>; the index 0 and the empty string are falsy. The \<^verbatim>\<open>for ... in\<close> loop with
  its \<^verbatim>\<open>hasOwnProperty\<close> test goes through the own members of the declared headers.
\<close>

definition response_headers ::
  "bool \<Rightarrow> ast option \<Rightarrow> string \<Rightarrow> json \<Rightarrow> json \<Rightarrow> element option" where
  "response_headers generateSourceMap ast base responseValue contentType = do {
     let headers = new_element ''httpHeaders'' (CElements []);
     headers \<leftarrow> (if truthy (Some contentType) then do {
                    member \<leftarrow> setupSourceMap generateSourceMap ast
                      (base @ ''.examples.'' @ to_string (Some contentType))
                      (new_member (Some (JStr ''Content-Type'')) (Some contentType));
                    Some (push member headers)
                  } else Some headers);
     (if truthy (member_of responseValue ''headers'') then do {
        members \<leftarrow> map_opt (header_member generateSourceMap ast base)
          (entries (member_of responseValue ''headers''));
        Some (fold push members headers)
      } else Some headers)
   }"

text \<open>The \<^verbatim>\<open>if (responseBody !== undefined)\<close> block, on the response.\<close>

definition response_body ::
  "env \<Rightarrow> bool \<Rightarrow> ast option \<Rightarrow> string \<Rightarrow> json \<Rightarrow> json option \<Rightarrow> element \<Rightarrow>
     element option" where
  "response_body E generateSourceMap ast base contentType responseBody res =
     (case responseBody of
        None \<Rightarrow> Some res
      | Some body \<Rightarrow> do {
          bodyAsset \<leftarrow> setupSourceMap generateSourceMap ast
            (base @ ''.examples.'' @ to_string (Some contentType))
            (push_class ''messageBody''
               (new_element ''asset'' (CValue (formattedResponseBody E body))));
          Some (push bodyAsset res)
        })"

text \<open>
  The callback of \<^verbatim>\<open>_.each(examples, (responseBody, contentType) => ...)\<close>: the
  completed transaction, which the source has pushed to the transition. \<open>operation\<close>
  is the text \<^verbatim>\<open>`paths.${href}.${method}`\<close>. The status code is a key handed out by
  \<^verbatim>\<open>_.each\<close>, too.
\<close>

definition example_transaction ::
  "env \<Rightarrow> bool \<Rightarrow> ast option \<Rightarrow> string \<Rightarrow> json \<Rightarrow> json list \<Rightarrow> json \<Rightarrow> json \<Rightarrow>
     json \<times> json option \<Rightarrow> element option" where
  "example_transaction E generateSourceMap ast operation method bodyParameters statusCode
       responseValue example =
     (case example of (contentType, responseBody) \<Rightarrow> do {
        let base = operation @ ''.responses.'' @ to_string (Some statusCode);
        transaction \<leftarrow> createTransaction method;
        req \<leftarrow> new_request method;
        transaction \<leftarrow> setupSourceMap generateSourceMap ast base transaction;
        req \<leftarrow> setupSourceMap generateSourceMap ast operation req;
        res \<leftarrow> (if truthy (Some statusCode)
                 then setupSourceMap generateSourceMap ast base new_response
                 else Some new_response);
        res \<leftarrow> response_description generateSourceMap ast base responseValue res;
        headers \<leftarrow> response_headers generateSourceMap ast base responseValue contentType;
        let res = (if truthy (Some contentType) \<or> truthy (member_of responseValue ''headers'')
                   then set_attribute ''headers'' headers res else res);
        let req = fold push
          (map (\<lambda>bodyParameter. createAssetFromJsonSchema E (member_of bodyParameter ''schema''))
             bodyParameters) req;
        res \<leftarrow> response_body E generateSourceMap ast base contentType responseBody res;
        let res = (case response_schema responseValue of
                     None \<Rightarrow> res
                   | Some schema \<Rightarrow> push (createAssetFromJsonSchema E (Some schema)) res);
        let res = (if statusCode \<noteq> JStr ''null''
                   then set_attribute ''statusCode'' (refract statusCode) res else res);
        Some (completed transaction req res)
      })"

text \<open>
  The examples the callback of \<^verbatim>\<open>_.each(relevantResponses, ...)\<close> goes through: what
  \<^verbatim>\<open>_.each\<close> makes of \<^verbatim>\<open>_.omit(examples, 'schema')\<close>. Without a truthy \<^verbatim>\<open>examples\<close> the
  one example is the empty content type with an \<^verbatim>\<open>undefined\<close> body.
\<close>

definition response_examples :: "json \<Rightarrow> (json \<times> json option) list" where
  "response_examples responseValue =
     (if truthy (member_of responseValue ''examples'')
      then each (Some (JObj (omit [''schema''] (allKeys (member_of responseValue ''examples'')))))
      else [(JStr [], None)])"

text \<open>
  The callback of \<^verbatim>\<open>_.each(relevantResponses, (responseValue, statusCode) => ...)\<close>: the
  transactions it adds. Reading \<^verbatim>\<open>responseValue.examples\<close> of \<^verbatim>\<open>null\<close> or
  \<^verbatim>\<open>undefined\<close> raises a TypeError.
\<close>

definition response_transactions ::
  "env \<Rightarrow> bool \<Rightarrow> ast option \<Rightarrow> string \<Rightarrow> json \<Rightarrow> json list \<Rightarrow> json \<times> json option \<Rightarrow>
     element list option" where
  "response_transactions E generateSourceMap ast operation method bodyParameters r =
     (case r of (statusCode, value) \<Rightarrow>
        (case value of
           None \<Rightarrow> None
         | Some responseValue \<Rightarrow>
             if responseValue = JNull then None
             else map_opt
               (example_transaction E generateSourceMap ast operation method bodyParameters
                  statusCode responseValue)
               (response_examples responseValue)))"

section \<open>The builder: one transition for each method of a path\<close>

text \<open>\<^verbatim>\<open>setupAnnotation(info, path, message)\<close>: \<^verbatim>\<open>makeAnnotation\<close> bound to the result.\<close>

definition setupAnnotation ::
  "ast option \<Rightarrow> annotation_info \<Rightarrow> string \<Rightarrow> string \<Rightarrow> element list \<Rightarrow> element list option" where
  "setupAnnotation ast info path message result =
     makeAnnotation ast result info (Some (PStr path)) message"

text \<open>
  \<^verbatim>\<open>if (condition) { setupAnnotation(ANNOTATIONS.DATA_LOST, path, message); }\<close>
\<close>

definition lost_when ::
  "bool \<Rightarrow> ast option \<Rightarrow> string \<Rightarrow> string \<Rightarrow> element list \<Rightarrow> element list option" where
  "lost_when condition ast path message result =
     (if condition then setupAnnotation ast DATA_LOST path message result else Some result)"

text \<open>\<^verbatim>\<open>methodValue.responses && methodValue.responses.default\<close>, as a condition.\<close>

definition has_default_response :: "json \<Rightarrow> bool" where
  "has_default_response methodValue =
     (case member_of methodValue ''responses'' of
        None \<Rightarrow> False
      | Some responses \<Rightarrow> truthy (Some responses) \<and> truthy (member_of responses ''default''))"

text \<open>
  \<^verbatim>\<open>methodValue.parameters || []\<close>, which the source then filters: a truthy value that
  is not an array has no function \<^verbatim>\<open>filter\<close>, and a \<^verbatim>\<open>null\<close> item has no \<^verbatim>\<open>in\<close>; both
  raise a TypeError.
\<close>

definition methodValueParameters :: "json \<Rightarrow> json list option" where
  "methodValueParameters methodValue =
     (case member_of methodValue ''parameters'' of
        None \<Rightarrow> Some []
      | Some ps \<Rightarrow>
          if truthy (Some ps) then
            (case ps of
               JArr xs \<Rightarrow> if JNull \<in> set xs then None else Some xs
             | _ \<Rightarrow> None)
          else Some [])"

definition parameter_in :: "string list \<Rightarrow> json \<Rightarrow> bool" where
  "parameter_in places parameter =
     (case member_of parameter ''in'' of Some (JStr s) \<Rightarrow> s \<in> set places | _ \<Rightarrow> False)"

text \<open>
  \<^verbatim>\<open>_.chain(methodValue.responses).omit('default').omit(isExtension).value()\<close>, a new
  object.
\<close>

definition relevantResponses :: "json \<Rightarrow> (string \<times> json) list" where
  "relevantResponses methodValue =
     omit_extensions (omit [''default''] (allKeys (member_of methodValue ''responses'')))"

text \<open>
  The transactions of a method. With no relevant response, a method with body
  parameters gets the response \<^verbatim>\<open>relevantResponses.null = {}\<close>, and a method without
  gets one transaction from \<^verbatim>\<open>createTransaction\<close> alone. Then \<^verbatim>\<open>_.each\<close> goes through
  the relevant responses.
\<close>

definition method_transactions ::
  "env \<Rightarrow> bool \<Rightarrow> ast option \<Rightarrow> string \<Rightarrow> json \<Rightarrow> json list \<Rightarrow> json \<Rightarrow>
     element list option" where
  "method_transactions E generateSourceMap ast operation method bodyParameters methodValue = do {
     let responses = relevantResponses methodValue;
     bare \<leftarrow> (if responses = [] \<and> bodyParameters = []
               then map_option (\<lambda>transaction. [transaction]) (createTransaction method)
               else Some []);
     let responses = (if responses = [] \<and> bodyParameters \<noteq> [] then [(''null'', JObj [])]
                      else responses);
     transactions \<leftarrow> map_opt
       (response_transactions E generateSourceMap ast operation method bodyParameters)
       (each (Some (JObj responses)));
     Some (bare @ concat transactions)
   }"

text \<open>
  The callback of \<^verbatim>\<open>_.each(relevantPaths, (methodValue, method) => ...)\<close>, on the
  resource of the path and the result. Reading \<^verbatim>\<open>methodValue.externalDocs\<close> of \<^verbatim>\<open>null\<close>
  or \<^verbatim>\<open>undefined\<close> raises a TypeError. A URI parameter is source-mapped by its index
  in the unfiltered list, which the model keeps beside it.
\<close>

definition method_transition ::
  "env \<Rightarrow> bool \<Rightarrow> ast option \<Rightarrow> string \<Rightarrow> json \<Rightarrow> json \<Rightarrow> json \<times> json option \<Rightarrow>
     element \<times> element list \<Rightarrow> (element \<times> element list) option" where
  "method_transition E generateSourceMap ast basePath href pathObjectParameters m state =
     (case (m, state) of ((method, value), (resource, result)) \<Rightarrow> do {
        let operation = ''paths.'' @ to_string (Some href) @ ''.'' @ to_string (Some method);
        transition \<leftarrow> setupSourceMap generateSourceMap ast operation
          (new_element ''transition'' (CElements []));
        methodValue \<leftarrow> (case value of
                           None \<Rightarrow> None
                         | Some v \<Rightarrow> if v = JNull then None else Some v);
        result \<leftarrow> lost_when (truthy (member_of methodValue ''externalDocs'')) ast
          (operation @ ''.externalDocs'') ''External documentation is not yet supported''
          result;
        parameters \<leftarrow> methodValueParameters methodValue;
        let queryParameters = filter (parameter_in [''query'']) parameters;
        let uriParameters =
          filter (\<lambda>(index, parameter). parameter_in [''query'', ''path''] parameter)
            (zip [0 ..< length parameters] parameters);
        let bodyParameters = filter (parameter_in [''body'']) parameters;
        let formParameters = filter (parameter_in [''formData'']) parameters;
        result \<leftarrow> lost_when (formParameters \<noteq> []) ast (operation @ ''.parameters'')
          ''Form data parameters are not yet supported'' result;
        let resource = set_attribute ''href''
          (refract (JStr (buildUriTemplate E basePath href pathObjectParameters
             queryParameters))) resource;
        transition \<leftarrow> (case member_of methodValue ''summary'' of
                        None \<Rightarrow> Some transition
                      | Some summary \<Rightarrow>
                          if truthy (Some summary) then do {
                            title \<leftarrow> setupSourceMap generateSourceMap ast
                              (operation @ ''.summary'') (refract summary);
                            Some (set_meta ''title'' title transition)
                          } else Some transition);
        transition \<leftarrow> (case member_of methodValue ''description'' of
                        None \<Rightarrow> Some transition
                      | Some d \<Rightarrow>
                          if truthy (Some d) then do {
                            description \<leftarrow> setupSourceMap generateSourceMap ast
                              (operation @ ''.description'') (new_copy d);
                            Some (push description transition)
                          } else Some transition);
        let transition = when_truthy (member_of methodValue ''operationId'')
          (\<lambda>operationId. set_attribute ''relation'' (refract operationId)) transition;
        transition \<leftarrow> (if uriParameters \<noteq> [] then do {
                          members \<leftarrow> map_opt
                            (\<lambda>(index, parameter). do {
                               member \<leftarrow> convertParameterToElement parameter;
                               setupSourceMap generateSourceMap ast
                                 (operation @ ''.parameters['' @ show_nat index @ '']'') member
                             }) uriParameters;
                          Some (set_attribute ''hrefVariables''
                                  (new_element ''hrefVariables'' (CElements members)) transition)
                        } else Some transition);
        result \<leftarrow> lost_when (has_default_response methodValue) ast
          (operation @ ''.responses.default'') ''Default response is not yet supported''
          result;
        transactions \<leftarrow> method_transactions E generateSourceMap ast operation method
          bodyParameters methodValue;
        Some (push (fold push transactions transition) resource, result)
      })"

section \<open>The builder: one resource for each path\<close>

text \<open>
  The variable \<^verbatim>\<open>group\<close> (\<open>grp\<close> below) refers to the api category or to a resource
  group among the items of its content; the model holds the index of that item.
\<close>

datatype group_ref = Root | Child nat

definition title_value :: "element \<Rightarrow> json option" where
  "title_value e =
     (case get_meta e ''title'' of
        None \<Rightarrow> None
      | Some t \<Rightarrow> (case content t of CValue v \<Rightarrow> Some v | _ \<Rightarrow> None))"

text \<open>
  The predicate handed to \<^verbatim>\<open>api.find\<close>, and the index of the first item of the api
  category's content that satisfies it. \<^verbatim>\<open>find\<close> belongs to \<^verbatim>\<open>minim\<close>; resource groups
  are only ever pushed to the api category itself, where the model looks for them. The
  title of a group named by an array or an object is a new value each time it is read,
  equal to nothing.
\<close>

definition is_group :: "json \<Rightarrow> element \<Rightarrow> bool" where
  "is_group groupName el =
     (element el = ''category'' \<and> ''resourceGroup'' \<in> set (classes el) \<and>
      title_value el = Some groupName)"

definition find_group :: "element \<Rightarrow> json \<Rightarrow> nat option" where
  "find_group api groupName =
     List.find (\<lambda>i. is_group groupName (children api ! i)) [0 ..< length (children api)]"

text \<open>
  A new resource group, described by every document-level tag of that name that has a
  truthy description. The guard \<^verbatim>\<open>swagger.tags && swagger.tags.forEach\<close> lets an array
  through, and an object with a truthy member \<^verbatim>\<open>forEach\<close>, whose call raises a
  TypeError as reading \<^verbatim>\<open>tag.name\<close> of a \<^verbatim>\<open>null\<close> tag does.
\<close>

definition tag_descriptions :: "json \<Rightarrow> json \<Rightarrow> element list option" where
  "tag_descriptions swagger groupName =
     (case member_of swagger ''tags'' of
        Some (JArr tags) \<Rightarrow>
          if JNull \<in> set tags then None
          else Some (concat (map (\<lambda>tag.
                 if strict_equals (member_of tag ''name'') (Some groupName) \<and>
                    truthy (member_of tag ''description'')
                 then (case member_of tag ''description'' of Some d \<Rightarrow> [new_copy d] | None \<Rightarrow> [])
                 else []) tags))
      | Some (JObj kvs) \<Rightarrow> if truthy (map_of kvs ''forEach'') then None else Some []
      | _ \<Rightarrow> Some [])"

definition new_group :: "json \<Rightarrow> element list \<Rightarrow> element" where
  "new_group groupName descriptions =
     fold push descriptions
       (push_class ''resourceGroup''
          (set_meta ''title'' (refract groupName) (new_element ''category'' (CElements []))))"

text \<open>
  The \<^verbatim>\<open>if (useGroups)\<close> block: the api category and \<^verbatim>\<open>group\<close> after it.
\<close>

definition select_group ::
  "json \<Rightarrow> bool \<Rightarrow> json \<Rightarrow> element \<times> group_ref \<Rightarrow> (element \<times> group_ref) option" where
  "select_group swagger useGroups pathValue state =
     (case state of (api, grp) \<Rightarrow>
        if useGroups then
          (case member_of pathValue ''x-group-name'' of
             None \<Rightarrow> Some (api, grp)
           | Some groupName \<Rightarrow>
               if truthy (Some groupName) then
                 (case find_group api groupName of
                    Some i \<Rightarrow> Some (api, Child i)
                  | None \<Rightarrow>
                      (case tag_descriptions swagger groupName of
                         None \<Rightarrow> None
                       | Some descriptions \<Rightarrow>
                           Some (push (new_group groupName descriptions) api,
                                 Child (length (children api)))))
               else Some (api, grp))
        else Some (api, grp))"

text \<open>\<^verbatim>\<open>group.content.push(resource)\<close>, through the reference.\<close>

definition push_to_group :: "group_ref \<Rightarrow> element \<Rightarrow> element \<Rightarrow> element" where
  "push_to_group grp resource api =
     (case grp of
        Root \<Rightarrow> push resource api
      | Child i \<Rightarrow>
          Element (element api) (meta api) (attributes api)
            (CElements ((children api)[i := push resource (children api ! i)])))"

text \<open>
  \<^verbatim>\<open>pathValue.parameters || []\<close>, and the block guarded by
  \<^verbatim>\<open>pathObjectParameters.length > 0\<close>: the href variables and the result after it. Only
  an array has a function \<^verbatim>\<open>forEach\<close>.
\<close>

definition pathObjectParameters :: "json \<Rightarrow> json" where
  "pathObjectParameters pathValue =
     (case member_of pathValue ''parameters'' of
        None \<Rightarrow> JArr []
      | Some ps \<Rightarrow> if truthy (Some ps) then ps else JArr [])"

definition path_parameter ::
  "bool \<Rightarrow> ast option \<Rightarrow> string \<Rightarrow> nat \<times> json \<Rightarrow> element list \<times> element list \<Rightarrow>
     (element list \<times> element list) option" where
  "path_parameter generateSourceMap ast path p state =
     (case (p, state) of ((index, parameter), (members, result)) \<Rightarrow>
        if parameter = JNull then None
        else if parameter_in [''query'', ''path''] parameter then do {
          member \<leftarrow> convertParameterToElement parameter;
          member \<leftarrow> setupSourceMap generateSourceMap ast
            (path @ ''.parameters['' @ show_nat index @ '']'') member;
          Some (members @ [member], result)
        }
        else if parameter_in [''body''] parameter then do {
          result \<leftarrow> setupAnnotation ast DATA_LOST
            (path @ ''.parameters['' @ show_nat index @ '']'')
            ''Path-level body parameters are not yet supported'' result;
          Some (members, result)
        }
        else Some (members, result))"

definition path_parameters ::
  "bool \<Rightarrow> ast option \<Rightarrow> string \<Rightarrow> json \<Rightarrow> element \<times> element list \<Rightarrow>
     (element \<times> element list) option" where
  "path_parameters generateSourceMap ast path parameters state =
     (case state of (resource, result) \<Rightarrow>
        if greater_than (member_of parameters ''length'') 0 then
          (case parameters of
             JArr xs \<Rightarrow>
               map_option
                 (\<lambda>(members, result).
                    (set_attribute ''hrefVariables''
                       (new_element ''hrefVariables'' (CElements members)) resource, result))
                 (fold_opt (path_parameter generateSourceMap ast path)
                    (zip [0 ..< length xs] xs) ([], result))
           | _ \<Rightarrow> None)
        else Some (resource, result))"

text \<open>
  The callback of \<^verbatim>\<open>_.each(_.omit(swagger.paths, isExtension), (pathValue, href) => ...)\<close>,
  on the api category, \<^verbatim>\<open>group\<close> and the result. Reading \<^verbatim>\<open>pathValue['x-summary']\<close> of
  \<^verbatim>\<open>null\<close> or \<^verbatim>\<open>undefined\<close> raises a TypeError. The source pushes the new resource to
  its group before it completes it; the model pushes the completed resource.
\<close>

definition path_resource ::
  "env \<Rightarrow> bool \<Rightarrow> ast option \<Rightarrow> json \<Rightarrow> string \<Rightarrow> bool \<Rightarrow> json \<times> json option \<Rightarrow>
     element \<times> group_ref \<times> element list \<Rightarrow> (element \<times> group_ref \<times> element list) option" where
  "path_resource E generateSourceMap ast swagger basePath useGroups p state =
     (case (p, state) of ((href, value), (api, grp, result)) \<Rightarrow> do {
        let path = ''paths.'' @ to_string (Some href);
        resource \<leftarrow> setupSourceMap generateSourceMap ast path
          (new_element ''resource'' (CElements []));
        pathValue \<leftarrow> (case value of
                         None \<Rightarrow> None
                       | Some v \<Rightarrow> if v = JNull then None else Some v);
        let resource = when_truthy (member_of pathValue ''x-summary'')
          (\<lambda>summary. set_meta ''title'' (refract summary)) resource;
        let resource = when_truthy (member_of pathValue ''x-description'')
          (\<lambda>d. push (new_copy d)) resource;
        (api, grp) \<leftarrow> select_group swagger useGroups pathValue (api, grp);
        let parameters = pathObjectParameters pathValue;
        (resource, result) \<leftarrow> path_parameters generateSourceMap ast path parameters
          (resource, result);
        let relevantPaths =
          omit_extensions (omit [''parameters'', ''$ref''] (allKeys (Some pathValue)));
        (resource, result) \<leftarrow> fold_opt
          (method_transition E generateSourceMap ast basePath href parameters)
          (each (Some (JObj relevantPaths))) (resource, result);
        Some (push_to_group grp resource api, grp, result)
      })"

section \<open>The builder: the document\<close>

text \<open>
  \<^verbatim>\<open>(swagger.basePath || '').replace(/[/]+$/, '')\<close>; a truthy value that is not a string
  has no \<^verbatim>\<open>replace\<close>.
\<close>

definition basePath_of :: "json \<Rightarrow> string option" where
  "basePath_of swagger =
     (case member_of swagger ''basePath'' of
        None \<Rightarrow> Some []
      | Some b \<Rightarrow>
          if truthy (Some b) then
            (case b of
               JStr s \<Rightarrow> Some (rev (dropWhile (\<lambda>c. c = CHR ''/'') (rev s)))
             | _ \<Rightarrow> None)
          else Some [])"

text \<open>The \<^verbatim>\<open>if (swagger.info)\<close> block, on the api category.\<close>

definition info_block :: "bool \<Rightarrow> ast option \<Rightarrow> json \<Rightarrow> element \<Rightarrow> element option" where
  "info_block generateSourceMap ast swagger api =
     (case member_of swagger ''info'' of
        None \<Rightarrow> Some api
      | Some info \<Rightarrow>
          if truthy (Some info) then do {
            api \<leftarrow> (case member_of info ''title'' of
                       None \<Rightarrow> Some api
                     | Some t \<Rightarrow>
                         if truthy (Some t) then do {
                           title \<leftarrow> setupSourceMap generateSourceMap ast ''info.title''
                             (refract t);
                           Some (set_meta ''title'' title api)
                         } else Some api);
            (case member_of info ''description'' of
               None \<Rightarrow> Some api
             | Some d \<Rightarrow>
                 if truthy (Some d) then do {
                   description \<leftarrow> setupSourceMap generateSourceMap ast ''info.description''
                     (new_copy d);
                   Some (push description api)
                 } else Some api)
          } else Some api)"

text \<open>
  The \<^verbatim>\<open>if (swagger.host)\<close> block, on the api category and the result. The hostname is
  the host itself, or with truthy \<^verbatim>\<open>schemes\<close> the text
  \<^verbatim>\<open>`${swagger.schemes[0]}://${hostname}`\<close>.
\<close>

definition hostname_of :: "json \<Rightarrow> json \<Rightarrow> json" where
  "hostname_of swagger host =
     (case member_of swagger ''schemes'' of
        None \<Rightarrow> host
      | Some schemes \<Rightarrow>
          if truthy (Some schemes)
          then JStr (to_string (member_of schemes ''0'') @ ''://'' @ to_string (Some host))
          else host)"

text \<open>\<^verbatim>\<open>swagger.schemes\<close> is truthy and \<^verbatim>\<open>swagger.schemes.length > 1\<close>.\<close>

definition several_schemes :: "json \<Rightarrow> bool" where
  "several_schemes swagger =
     (case member_of swagger ''schemes'' of
        None \<Rightarrow> False
      | Some schemes \<Rightarrow> truthy (Some schemes) \<and> greater_than (member_of schemes ''length'') 1)"

text \<open>\<^verbatim>\<open>new MemberElement('HOST', hostname)\<close> with \<^verbatim>\<open>meta.classes\<close> set to \<^verbatim>\<open>['user']\<close>.\<close>

definition host_member :: "json \<Rightarrow> json \<Rightarrow> element" where
  "host_member swagger host =
     set_meta ''classes'' (refract (JArr [JStr ''user'']))
       (new_member (Some (JStr ''HOST'')) (Some (hostname_of swagger host)))"

definition host_block ::
  "bool \<Rightarrow> ast option \<Rightarrow> json \<Rightarrow> element \<times> element list \<Rightarrow> (element \<times> element list) option" where
  "host_block generateSourceMap ast swagger state =
     (case state of (api, result) \<Rightarrow>
        (case member_of swagger ''host'' of
           None \<Rightarrow> Some (api, result)
         | Some host \<Rightarrow>
             if truthy (Some host) then do {
               result \<leftarrow> lost_when (several_schemes swagger) ast ''schemes''
                 ''Only the first scheme will be used to create a hostname'' result;
               member \<leftarrow> setupSourceMap generateSourceMap ast ''host''
                 (host_member swagger host);
               Some (set_attribute ''meta'' (push member (refract (JObj []))) api, result)
             } else Some (api, result)))"

text \<open>
  The three blocks for \<^verbatim>\<open>securityDefinitions\<close>, \<^verbatim>\<open>security\<close> and \<^verbatim>\<open>externalDocs\<close> at the
  document root.
\<close>

definition unsupported :: "ast option \<Rightarrow> json \<Rightarrow> string \<Rightarrow> string \<Rightarrow> element list \<Rightarrow>
    element list option" where
  "unsupported ast swagger key message result =
     (if truthy (member_of swagger key) then setupAnnotation ast DATA_LOST key message result
      else Some result)"

definition unsupported_blocks :: "ast option \<Rightarrow> json \<Rightarrow> element list \<Rightarrow> element list option" where
  "unsupported_blocks ast swagger result = do {
     result \<leftarrow> unsupported ast swagger ''securityDefinitions''
       ''Authentication information is not yet supported'' result;
     result \<leftarrow> unsupported ast swagger ''security''
       ''Authentication information is not yet supported'' result;
     unsupported ast swagger ''externalDocs''
       ''External documentation is not yet supported'' result
   }"

section \<open>Validation errors\<close>

text \<open>
  The \<^verbatim>\<open>for\<close> loop over \<^verbatim>\<open>queue[0]\<close>: one annotation for each item, and the lists the
  items push to the queue (every truthy \<^verbatim>\<open>item.inner\<close>, in order).
\<close>

definition annotate_items :: "ast option \<Rightarrow> detail list \<Rightarrow> element list \<Rightarrow> element list option" where
  "annotate_items ast items result =
     fold_opt (\<lambda>item result.
        makeAnnotation ast result VALIDATION_ERROR (detail_path item) (detail_message item))
       items result"

definition pushed :: "detail list \<Rightarrow> detail list list" where
  "pushed items = concat (map (\<lambda>item. case inner item of None \<Rightarrow> [] | Some ds \<Rightarrow> [ds]) items)"



text \<open>A measure of the queue that every turn of the \<^verbatim>\<open>while\<close> loop decreases.\<close>

fun weight :: "detail \<Rightarrow> nat" where
  "weight (Detail p m i) =
     Suc (case i of None \<Rightarrow> 0 | Some ds \<Rightarrow> Suc (sum_list (map weight ds)))"

definition queue_weight :: "detail list list \<Rightarrow> nat" where
  "queue_weight queue = sum_list (map (\<lambda>items. Suc (sum_list (map weight items))) queue)"

lemma queue_weight_append:
  "queue_weight (xs @ ys) = queue_weight xs + queue_weight ys"
  by (simp add: queue_weight_def)

lemma queue_weight_pushed:
  "queue_weight (pushed items) \<le> sum_list (map weight items)"
proof (induction items)
  case Nil
  show ?case by (simp add: pushed_def queue_weight_def)
next
  case (Cons d ds)
  have step: "pushed (d # ds) = (case inner d of None \<Rightarrow> [] | Some xs \<Rightarrow> [xs]) @ pushed ds"
    by (simp add: pushed_def)
  have "queue_weight (case inner d of None \<Rightarrow> [] | Some xs \<Rightarrow> [xs]) \<le> weight d"
    by (cases d) (simp add: queue_weight_def split: option.splits)
  with Cons show ?case
    by (simp add: step queue_weight_append)
qed

text \<open>
  The \<^verbatim>\<open>while (queue.length)\<close> loop: the first list of the queue is annotated, the inner
  lists of its items join the queue at the end, and the first list is shifted off.
\<close>

function drain :: "ast option \<Rightarrow> detail list list \<Rightarrow> element list \<Rightarrow> element list option" where
  "drain ast [] result = Some result"
| "drain ast (items # queue) result =
     (case annotate_items ast items result of
        None \<Rightarrow> None
      | Some result' \<Rightarrow> drain ast (queue @ pushed items) result')"
  by pat_completeness auto
termination
proof (relation "measure (\<lambda>(ast, queue, result). queue_weight queue)")
  show "wf (measure (\<lambda>(ast, queue, result). queue_weight queue))" by simp
next
  fix ast :: "ast option" and items queue result result'
  have "queue_weight (queue @ pushed items) < queue_weight (items # queue)"
    using queue_weight_pushed [of items]
    by (simp add: queue_weight_append) (simp add: queue_weight_def)
  then show "((ast, queue @ pushed items, result'), (ast, items # queue, result))
      \<in> measure (\<lambda>(ast, queue, result). queue_weight queue)"
    by simp
qed

text \<open>
  The \<^verbatim>\<open>if (err.details)\<close> block: \<^verbatim>\<open>queue = [err.details]\<close> and the loop.
\<close>

definition validation_annotations ::
  "ast option \<Rightarrow> validation_error \<Rightarrow> element list \<Rightarrow> element list option" where
  "validation_annotations ast e result =
     (case details e of None \<Rightarrow> Some result | Some ds \<Rightarrow> drain ast [ds] result)"


section \<open>parse\<close>

text \<open>
  What a run of \<^verbatim>\<open>parse\<close> leaves behind: the calls of the completion callback
  \<^verbatim>\<open>done(err, parseResult)\<close>, in order, each with the content of the parse result; and
  the value of \<^verbatim>\<open>source\<close> as the caller sees it afterwards.
\<close>

record outcome =
  done_calls :: "(validation_error option \<times> element list) list"
  source_after :: json

text \<open>\<^verbatim>\<open>_.isString(source)\<close>.\<close>

fun isString :: "json \<Rightarrow> bool" where
  "isString (JStr _) = True"
| "isString _ = False"

text \<open>
  The defaults for \<^verbatim>\<open>info\<close> and \<^verbatim>\<open>paths\<close>. The module is strict code: creating a
  member on a number, a boolean or a string raises a TypeError, as reading one of
  \<^verbatim>\<open>null\<close> does. An array would take the two members as properties beside its items,
  which a JSON array here cannot hold, so the model leaves an array as it is.
\<close>

definition default_member :: "string \<Rightarrow> (string \<times> json) list \<Rightarrow> (string \<times> json) list" where
  "default_member key kvs = (if map_of kvs key = None then put key (JObj []) kvs else kvs)"

definition with_defaults :: "json \<Rightarrow> json option" where
  "with_defaults loaded =
     (case loaded of
        JObj kvs \<Rightarrow> Some (JObj (default_member ''paths'' (default_member ''info'' kvs)))
      | JArr xs \<Rightarrow> Some loaded
      | _ \<Rightarrow> None)"

text \<open>
  The part of the callback of \<^verbatim>\<open>parser.validate\<close> after the \<^verbatim>\<open>if (err)\<close> block: from
  \<^verbatim>\<open>parser.api\<close> and the result so far to \<^verbatim>\<open>parser.api\<close> as \<^verbatim>\<open>useResourceGroups\<close>
  leaves it and the content of the parse result. The api category is pushed to the
  result first and completed afterwards; the model puts the completed category where
  it was pushed.
\<close>

definition build ::
  "env \<Rightarrow> bool \<Rightarrow> ast option \<Rightarrow> json \<Rightarrow> element list \<Rightarrow> (json \<times> element list) option" where
  "build E generateSourceMap ast swagger result =
     (if swagger = JNull then None
      else do {
        basePath \<leftarrow> basePath_of swagger;
        let before = result;
        let api = push_class ''api'' (new_element ''category'' (CElements []));
        api \<leftarrow> info_block generateSourceMap ast swagger api;
        (api, result) \<leftarrow> host_block generateSourceMap ast swagger (api, []);
        result \<leftarrow> unsupported_blocks ast swagger result;
        (swagger, useGroups) \<leftarrow> useResourceGroups swagger;
        (api, grp, result) \<leftarrow> fold_opt
          (path_resource E generateSourceMap ast swagger basePath useGroups)
          (each (Some (JObj (omit_extensions (allKeys (member_of swagger ''paths''))))))
          (api, Root, result);
        Some (swagger, before @ [api] @ result)
      })"

text \<open>
  The AST of a string source, with the annotation made when there is none: the value of
  \<^verbatim>\<open>ast\<close> and the content of the parse result before validation.
\<close>

definition compose_ast :: "env \<Rightarrow> json \<Rightarrow> (ast option \<times> element list) option" where
  "compose_ast E source =
     (case source of
        JStr s \<Rightarrow>
          (case compose E s of
             None \<Rightarrow>
               map_option (Pair None)
                 (makeAnnotation None [] AST_UNAVAILABLE None
                    ''Input AST could not be composed, so source maps will not be available'')
           | Some a \<Rightarrow> Some (a, []))
      | _ \<Rightarrow>
          map_option (Pair None)
            (makeAnnotation None [] AST_UNAVAILABLE None
               ''Source maps are only available with string input''))"

text \<open>
  The callback of \<^verbatim>\<open>parser.validate(loaded, (err) => ...)\<close>, run on the outcome of the
  validation. With an error and no \<^verbatim>\<open>parser.api\<close> it returns \<^verbatim>\<open>done(err, parseResult)\<close>;
  without an error and without \<^verbatim>\<open>parser.api\<close> it raises a TypeError at
  \<^verbatim>\<open>swagger.basePath\<close>. What is written to \<^verbatim>\<open>parser.api\<close> is written to the caller's
  object when the source is that object and the validator has worked in place.
\<close>

definition validated ::
  "env \<Rightarrow> bool \<Rightarrow> json \<Rightarrow> ast option \<Rightarrow> element list \<Rightarrow> json \<Rightarrow> outcome option" where
  "validated E generateSourceMap source ast result loaded =
     (let v = validate E loaded;
          caller = (if isString source then source else loaded)
      in case (validation_err v, parser_api v) of
           (Some e, None) \<Rightarrow> Some \<lparr>done_calls = [(Some e, result)], source_after = caller\<rparr>
         | (None, None) \<Rightarrow> None
         | (e, Some swagger) \<Rightarrow> do {
             result \<leftarrow> (case e of
                          None \<Rightarrow> Some result
                        | Some e \<Rightarrow> validation_annotations ast e result);
             (swagger, result) \<leftarrow> build E generateSourceMap ast swagger result;
             Some \<lparr>done_calls = [(None, result)],
                   source_after =
                     (if \<not> isString source \<and> in_place v then swagger else caller)\<rparr>
           })"

text \<open>
  \<^verbatim>\<open>parse({minim, source, generateSourceMap}, done)\<close>. A string source is loaded and
  composed; any other source is taken as the loaded document itself, so the defaults
  are written to the caller's object.
\<close>

definition parse :: "env \<Rightarrow> json \<Rightarrow> bool \<Rightarrow> outcome option" where
  "parse E source generateSourceMap =
     (case (case source of JStr s \<Rightarrow> safeLoad E s | _ \<Rightarrow> Some source) of
        None \<Rightarrow>
          map_option (\<lambda>result. \<lparr>done_calls = [(None, result)], source_after = source\<rparr>)
            (makeAnnotation None [] CANNOT_PARSE None ''Problem loading the input'')
      | Some loaded \<Rightarrow> do {
          (ast, result) \<leftarrow> compose_ast E source;
          loaded \<leftarrow> with_defaults loaded;
          validated E generateSourceMap source ast result loaded
        })"

section \<open>Observations on a result\<close>

text \<open>
  A diagnostic of a kind of the catalog: an annotation classed by the kind's severity
  that carries the kind's code. Its message is its content.
\<close>

definition diagnostic :: "annotation_info \<Rightarrow> element \<Rightarrow> bool" where
  "diagnostic info a =
     (element a = ''annotation'' \<and> classes a = [info_type info] \<and>
      get_attribute a ''code'' = Some (refract (JNum (info_code info))))"

definition message :: "element \<Rightarrow> string option" where
  "message a = (case content a of CValue (JStr m) \<Rightarrow> Some m | _ \<Rightarrow> None)"



text \<open>The result \<open>r'\<close> is the result \<open>r\<close> followed by elements that all satisfy \<open>P\<close>.\<close>

definition grows_by :: "(element \<Rightarrow> bool) \<Rightarrow> element list \<Rightarrow> element list \<Rightarrow> bool" where
  "grows_by P r r' = (\<exists>new. r' = r @ new \<and> list_all P new)"





text \<open>The api categories of a parse result, and what the items of their content are.\<close>

definition api_categories :: "element list \<Rightarrow> element list" where
  "api_categories result =
     filter (\<lambda>e. element e = ''category'' \<and> ''api'' \<in> set (classes e)) result"

definition kinds :: "element \<Rightarrow> (string \<times> string list \<times> json option) list" where
  "kinds e = map (\<lambda>x. (element x, classes x, title_value x)) (children e)"

text \<open>
  The resources of an api category, its own and those of the resource groups in it;
  the transitions of a parse result, which are those of the resources of its api
  categories; and the transactions of a transition.
\<close>

definition resources_of :: "element \<Rightarrow> element list" where
  "resources_of api =
     concat (map (\<lambda>e. if element e = ''resource'' then [e]
                       else if element e = ''category''
                         then filter (\<lambda>r. element r = ''resource'') (children e)
                       else []) (children api))"

definition transitions_of :: "element list \<Rightarrow> element list" where
  "transitions_of result =
     concat (map (\<lambda>resource. filter (\<lambda>t. element t = ''transition'') (children resource))
       (concat (map resources_of (api_categories result))))"

definition transactions_of :: "element \<Rightarrow> element list" where
  "transactions_of transition =
     filter (\<lambda>t. element t = ''httpTransaction'') (children transition)"











section \<open>Example inputs\<close>

text \<open>
  The AST of a document whose member \<^verbatim>\<open>a\<close> is a sequence of eleven scalars,
  \<^verbatim>\<open>a: [e0, e1, e2, e3, e4, e5, e6, e7, e8, e9, e10]\<close>.
\<close>

definition eleven_items :: ast where
  "eleven_items =
     MappingNode [(ScalarNode ''a'' 0 1,
       SequenceNode [ScalarNode ''e0'' 4 6, ScalarNode ''e1'' 8 10, ScalarNode ''e2'' 12 14,
         ScalarNode ''e3'' 16 18, ScalarNode ''e4'' 20 22, ScalarNode ''e5'' 24 26,
         ScalarNode ''e6'' 28 30, ScalarNode ''e7'' 32 34, ScalarNode ''e8'' 36 38,
         ScalarNode ''e9'' 40 42, ScalarNode ''e10'' 44 47] 3 48)] 0 48"

text \<open>
  The AST of a document whose member \<^verbatim>\<open>a\<close> is an internal reference to its member
  \<^verbatim>\<open>d\<close>, which holds a sequence of two items:
  \<^verbatim>\<open>{a: {$ref: '#/d'}, d: {items: [x, y]}}\<close>.
\<close>

definition referring :: ast where
  "referring =
     MappingNode
       [(ScalarNode ''a'' 1 2,
         MappingNode [(ScalarNode ''$ref'' 5 9, ScalarNode ''#/d'' 11 16)] 4 17),
        (ScalarNode ''d'' 19 20,
         MappingNode [(ScalarNode ''items'' 23 28,
           SequenceNode [ScalarNode ''x'' 31 32, ScalarNode ''y'' 34 35] 30 36)] 22 37)]
       0 38"

text \<open>A query parameter of type integer with the default 0.\<close>

definition offset_parameter :: json where
  "offset_parameter =
     JObj [(''name'', JStr ''offset''), (''in'', JStr ''query''), (''type'', JStr ''integer''),
           (''default'', JNum 0)]"

text \<open>
  Collaborators for running \<^verbatim>\<open>parse\<close> on a loaded document: the validator finds no
  error and hands back the object it was given; the href is the base path followed by
  the path template.
\<close>

definition accepting :: env where
  "accepting =
     \<lparr>safeLoad = (\<lambda>s. None), compose = (\<lambda>s. None),
      validate = (\<lambda>loaded. \<lparr>validation_err = None, parser_api = Some loaded, in_place = True\<rparr>),
      buildUriTemplate =
        (\<lambda>basePath href pathParameters queryParameters. basePath @ to_string (Some href)),
      stringify = (\<lambda>v. ''{}''), stringify_indented = (\<lambda>v. ''{}'')\<rparr>"

text \<open>
  A document with two paths: the one operation of \<^verbatim>\<open>/a\<close> carries two tags, the one
  operation of \<^verbatim>\<open>/b\<close> carries the single tag \<^verbatim>\<open>pets\<close>.
\<close>

definition two_tags :: json where
  "two_tags =
     JObj [(''swagger'', JStr ''2.0''),
       (''info'', JObj [(''title'', JStr ''T''), (''version'', JStr ''1'')]),
       (''paths'', JObj [
          (''/a'', JObj [(''get'', JObj [(''tags'', JArr [JStr ''x'', JStr ''y''])])]),
          (''/b'', JObj [(''get'', JObj [(''tags'', JArr [JStr ''pets''])])])])]"






text \<open>
  The document whose one operation, \<^verbatim>\<open>get\<close> of \<^verbatim>\<open>/a\<close>, has the one response \<^verbatim>\<open>200\<close> given.
\<close>

definition one_response :: "json \<Rightarrow> json" where
  "one_response r =
     JObj [(''swagger'', JStr ''2.0''),
       (''info'', JObj [(''title'', JStr ''T''), (''version'', JStr ''1'')]),
       (''paths'', JObj [(''/a'', JObj [(''get'', JObj [(''responses'',
          JObj [(''200'', r)])])])])]"

text \<open>
  A response without examples, one whose examples object is empty, one with an example
  for \<^verbatim>\<open>text/plain\<close>, and that one with a further member \<^verbatim>\<open>length\<close> among the
  examples.
\<close>

definition no_examples :: json where
  "no_examples = JObj [(''description'', JStr ''OK'')]"

definition empty_examples :: json where
  "empty_examples = JObj [(''description'', JStr ''OK''), (''examples'', JObj [])]"

definition one_example :: json where
  "one_example =
     JObj [(''description'', JStr ''OK''),
           (''examples'', JObj [(''text/plain'', JStr ''one'')])]"

definition examples_with_length :: json where
  "examples_with_length =
     JObj [(''description'', JStr ''OK''),
           (''examples'', JObj [(''text/plain'', JStr ''one''), (''length'', JNum 0)])]"

text \<open>A document with a host and an empty list of schemes.\<close>

definition no_schemes :: json where
  "no_schemes =
     JObj [(''swagger'', JStr ''2.0''),
       (''info'', JObj [(''title'', JStr ''T''), (''version'', JStr ''1'')]),
       (''host'', JStr ''api.example.com''), (''schemes'', JArr []),
       (''paths'', JObj [])]"

text \<open>
  A document without \<^verbatim>\<open>info\<close> with two paths, each with one operation tagged \<^verbatim>\<open>pets\<close>;
  the path item of \<^verbatim>\<open>/a\<close> has a further member \<^verbatim>\<open>length\<close>.
\<close>

definition length_in_path :: json where
  "length_in_path =
     JObj [(''swagger'', JStr ''2.0''),
       (''paths'', JObj [
          (''/a'', JObj [(''get'', JObj [(''tags'', JArr [JStr ''pets''])]),
                         (''length'', JNum 0)]),
          (''/b'', JObj [(''get'', JObj [(''tags'', JArr [JStr ''pets''])])])])]"

section \<open>Properties of the helpers\<close>

lemma element_set_attribute [simp]: "element (set_attribute k v e) = element e"
  and meta_set_attribute [simp]: "meta (set_attribute k v e) = meta e"
  and content_set_attribute [simp]: "content (set_attribute k v e) = content e"
  by (simp_all add: set_attribute_def)

lemma element_set_meta [simp]: "element (set_meta k v e) = element e"
  and attributes_set_meta [simp]: "attributes (set_meta k v e) = attributes e"
  and content_set_meta [simp]: "content (set_meta k v e) = content e"
  by (simp_all add: set_meta_def)

lemma map_of_put: "map_of (put key v kvs) k = (if k = key then Some v else map_of kvs k)"
  by (induction kvs) auto

lemma get_attribute_set_attribute [simp]:
  "get_attribute (set_attribute key v e) k = (if k = key then Some v else get_attribute e k)"
  by (simp add: get_attribute_def set_attribute_def map_of_put)

lemma get_attribute_set_meta [simp]: "get_attribute (set_meta key v e) k = get_attribute e k"
  by (simp add: get_attribute_def)

lemma get_meta_set_meta [simp]:
  "get_meta (set_meta key v e) k = (if k = key then Some v else get_meta e k)"
  by (simp add: get_meta_def set_meta_def map_of_put)

lemma get_meta_set_attribute [simp]: "get_meta (set_attribute key v e) k = get_meta e k"
  by (simp add: get_meta_def)

lemma element_push [simp]: "element (push x e) = element e"
  and meta_push [simp]: "meta (push x e) = meta e"
  and attributes_push [simp]: "attributes (push x e) = attributes e"
  and children_push [simp]: "children (push x e) = children e @ [x]"
  by (simp_all add: push_def children_def)

lemma classes_set_attribute [simp]: "classes (set_attribute k v e) = classes e"
  by (simp add: classes_def)

lemma classes_set_meta [simp]: "k \<noteq> ''classes'' \<Longrightarrow> classes (set_meta k v e) = classes e"
  by (simp add: classes_def)

lemma classes_new_element [simp]: "classes (new_element name c) = []"
  by (simp add: classes_def new_element_def get_meta_def)

lemma classes_push_class [simp]: "classes e = [] \<Longrightarrow> get_meta e ''classes'' = None \<Longrightarrow>
    classes (push_class c e) = [c]"
  by (simp add: classes_def push_class_def new_element_def children_def push_def)

lemma element_push_class [simp]: "element (push_class c e) = element e"
  and attributes_push_class [simp]: "attributes (push_class c e) = attributes e"
  and content_push_class [simp]: "content (push_class c e) = content e"
  and get_attribute_push_class [simp]: "get_attribute (push_class c e) k = get_attribute e k"
  by (simp_all add: push_class_def get_attribute_def)

lemma new_element_simps [simp]:
  "element (new_element name c) = name"
  "meta (new_element name c) = []"
  "attributes (new_element name c) = []"
  "content (new_element name c) = c"
  "get_attribute (new_element name c) k = None"
  "get_meta (new_element name c) k = None"
  by (simp_all add: new_element_def get_attribute_def get_meta_def)

text \<open>A source map changes nothing of an element but its attributes.\<close>

lemma setupSourceMap_shape:
  assumes "setupSourceMap g ast path e = Some e'"
  shows "element e' = element e \<and> meta e' = meta e \<and> content e' = content e"
  using assms
  by (auto simp: setupSourceMap_def makeSourceMap_def split: option.splits if_splits)




lemma message_set_attribute [simp]: "message (set_attribute k v a) = message a"
  by (simp add: message_def)



lemma grows_by_refl [simp]: "grows_by P r r"
  by (simp add: grows_by_def)












lemma push_to_group_shape [simp]:
  "element (push_to_group grp resource api) = element api"
  "meta (push_to_group grp resource api) = meta api"
  "attributes (push_to_group grp resource api) = attributes api"
  by (simp_all add: push_to_group_def split: group_ref.splits)


















lemma diagnostic_code:
  "diagnostic info a \<Longrightarrow> diagnostic info' a \<Longrightarrow> info_code info = info_code info'"
  by (simp add: diagnostic_def)





































section \<open>The claims\<close>

text \<open>
  Claim C9, as the code has it. The claim says that the resolver returns not-found, its
  failure value, for an empty path. The failure value is \<^verbatim>\<open>null\<close>. For the empty string
  and for the empty array the loop is never entered and the resolver returns the
  record \<^verbatim>\<open>{start, end}\<close> with both fields \<^verbatim>\<open>undefined\<close>, for every AST.
\<close>

theorem getPosition_empty_path:
  "getPosition ast (PStr []) = Some (Inr (Some \<lparr>pos_start = None, pos_end = None\<rparr>)) \<and>
   getPosition ast (PArr []) = Some (Inr (Some \<lparr>pos_start = None, pos_end = None\<rparr>))"
  by (simp add: getPosition_def resolve.simps)

text \<open>Claim C9 as stated fails: on the empty path the resolver does not return \<^verbatim>\<open>null\<close>.\<close>

theorem getPosition_empty_path_not_null:
  "getPosition (ScalarNode [] 0 0) (PStr []) \<noteq> Some (Inr None)"
  by (simp add: getPosition_def resolve.simps)

text \<open>
  Claim C2 at the index 10. An index suffix is to select the Nth item for every natural
  number N. The pattern keeps only the last digit of the suffix, so \<^verbatim>\<open>a[10]\<close> resolves
  to the span of item 0 (4 to 6), not of item 10 (44 to 47).
\<close>

theorem getPosition_index_10:
  "getPosition eleven_items (PStr ''a[10]'') =
     Some (Inr (Some \<lparr>pos_start = Some 4, pos_end = Some 6\<rparr>)) \<and>
   getPosition eleven_items (PStr ''a[0]'') =
     Some (Inr (Some \<lparr>pos_start = Some 4, pos_end = Some 6\<rparr>)) \<and>
   value_at (SequenceNode [ScalarNode ''e0'' 4 6, ScalarNode ''e1'' 8 10, ScalarNode ''e2'' 12 14,
         ScalarNode ''e3'' 16 18, ScalarNode ''e4'' 20 22, ScalarNode ''e5'' 24 26,
         ScalarNode ''e6'' 28 30, ScalarNode ''e7'' 32 34, ScalarNode ''e8'' 36 38,
         ScalarNode ''e9'' 40 42, ScalarNode ''e10'' 44 47] 3 48) 10 =
     Some (Node (ScalarNode ''e10'' 44 47))"
  by code_simp

text \<open>
  Claim C3 at an indexed segment. A path that crosses an internal reference is to
  resolve to the range of the direct path into the referenced location. The segment
  put back on the path after the referenced segments has lost its index suffix, so
  \<^verbatim>\<open>a.items[1]\<close> resolves to the range of the whole member \<^verbatim>\<open>items\<close> (23 to 36), while
  the direct path \<^verbatim>\<open>d.items[1]\<close> resolves to the span of the item (34 to 35).
\<close>

theorem getPosition_reference_drops_index:
  "getPosition referring (PStr ''a.items[1]'') =
     Some (Inr (Some \<lparr>pos_start = Some 23, pos_end = Some 36\<rparr>)) \<and>
   getPosition referring (PStr ''d.items[1]'') =
     Some (Inr (Some \<lparr>pos_start = Some 34, pos_end = Some 35\<rparr>)) \<and>
   getPosition referring (PStr ''a.items'') = getPosition referring (PStr ''d.items'')"
  by code_simp

text \<open>
  Claim C8 at the default 0. A default that is present is to be attached to the value
  placeholder. The guard is a truthiness test, so the default 0 is attached nowhere:
  the placeholder of the member is a number element without attributes.
\<close>

theorem convertParameterToElement_default_0:
  "convertParameterToElement offset_parameter =
     Some (Element ''member'' [] []
       (CMember (Some (refract (JStr ''offset''))) (Some (Element ''number'' [] [] CUndefined))))"
  by code_simp

text \<open>
  Claim C1 at a document with a two-tag operation. An operation with more than one tag
  is to disable grouping for the whole document. \<^verbatim>\<open>useResourceGroups\<close> returns true on
  this document, and the api category of the parse result holds the resource of
  \<^verbatim>\<open>/a\<close> followed by a resource group titled \<^verbatim>\<open>pets\<close>.
\<close>

theorem useResourceGroups_two_tags:
  "map_option snd (useResourceGroups two_tags) = Some True \<and>
   map_option (\<lambda>out. map (\<lambda>(e, result). map kinds (api_categories result)) (done_calls out))
     (parse accepting two_tags False) =
     Some [[[(''resource'', [], None),
             (''category'', [''resourceGroup''], Some (JStr ''pets''))]]]"
  by code_simp

text \<open>
  Claim C5 at a response with an empty examples object. Every method of a path is to
  yield at least one request/response pair. The operation \<^verbatim>\<open>get\<close> of \<^verbatim>\<open>/a\<close> has the one
  response \<^verbatim>\<open>200\<close>, so its relevant responses are not empty and no transaction is
  synthesized; the examples of that response are the empty object, so the loop over
  them creates none either: the transition of the operation holds no transaction. The
  same response without \<^verbatim>\<open>examples\<close> gives the one transaction.
\<close>

theorem parse_empty_examples:
  "map_option
     (\<lambda>out. map (\<lambda>(e, result). map transactions_of (transitions_of result)) (done_calls out))
     (parse accepting (one_response empty_examples) False) = Some [[[]]] \<and>
   map_option
     (\<lambda>out. map (\<lambda>(e, result). map transactions_of (transitions_of result)) (done_calls out))
     (parse accepting (one_response no_examples) False) =
     Some [[[Element ''httpTransaction'' [] []
       (CElements
         [Element ''httpRequest'' [] [(''method'', refract (JStr ''GET''))] (CElements []),
          Element ''httpResponse'' [] [(''statusCode'', refract (JStr ''200''))]
            (CElements [Element ''copy'' [] [] (CValue (JStr ''OK''))])])]]]"
  by code_simp

text \<open>
  Claim C6 at an examples object with a member \<^verbatim>\<open>length\<close>. A response is to get one
  transaction for each key of its examples object. \<^verbatim>\<open>_.each\<close> takes the examples
  \<^verbatim>\<open>{'text/plain': 'one', length: 0}\<close> for an array of length 0 and calls the callback
  not once: the transition holds no transaction. Without the member \<^verbatim>\<open>length\<close> the
  response gets the one transaction of \<^verbatim>\<open>text/plain\<close>, with the \<^verbatim>\<open>Content-Type\<close> header
  member and the \<^verbatim>\<open>messageBody\<close> asset.
\<close>

theorem parse_examples_with_length:
  "map_option
     (\<lambda>out. map (\<lambda>(e, result). map transactions_of (transitions_of result)) (done_calls out))
     (parse accepting (one_response examples_with_length) False) = Some [[[]]] \<and>
   map_option
     (\<lambda>out. map (\<lambda>(e, result). map transactions_of (transitions_of result)) (done_calls out))
     (parse accepting (one_response one_example) False) =
     Some [[[Element ''httpTransaction'' [] []
       (CElements
         [Element ''httpRequest'' [] [(''method'', refract (JStr ''GET''))] (CElements []),
          Element ''httpResponse'' []
            [(''headers'', Element ''httpHeaders'' [] []
               (CElements [Element ''member'' [] []
                  (CMember (Some (refract (JStr ''Content-Type'')))
                           (Some (refract (JStr ''text/plain''))))])),
             (''statusCode'', refract (JStr ''200''))]
            (CElements
              [Element ''copy'' [] [] (CValue (JStr ''OK'')),
               Element ''asset'' [(''classes'', refract (JArr [JStr ''messageBody'']))] []
                 (CValue (JStr ''one''))])])]]]"
  by code_simp

text \<open>
  Claim C7 at an empty list of schemes. With schemes declared the hostname is to be the
  first scheme, \<^verbatim>\<open>://\<close> and the host. The empty array is truthy and has no first
  item, so the hostname stored under \<^verbatim>\<open>HOST\<close> is \<^verbatim>\<open>undefined://api.example.com\<close>. No
  data-lost diagnostic is made.
\<close>

theorem parse_no_schemes:
  "hostname_of no_schemes (JStr ''api.example.com'') = JStr ''undefined://api.example.com'' \<and>
   map_option
     (\<lambda>out. map (\<lambda>(e, result).
        (filter (diagnostic DATA_LOST) result,
         map (\<lambda>api. get_attribute api ''meta'') (api_categories result))) (done_calls out))
     (parse accepting no_schemes False) =
     Some [([], [Some (Element ''object'' [] []
       (CElements [Element ''member'' [(''classes'', refract (JArr [JStr ''user'']))] []
          (CMember (Some (refract (JStr ''HOST'')))
                   (Some (refract (JStr ''undefined://api.example.com''))))]))])]"
  by code_simp

text \<open>
  Claim C10 at a path item with a member \<^verbatim>\<open>length\<close>. The defaults are written to the
  caller's object: it has the member \<^verbatim>\<open>info\<close> afterwards. Grouping applies, since
  \<^verbatim>\<open>/b\<close> gets its group name and the api category holds the resource group \<^verbatim>\<open>pets\<close>.
  Every tagged path item is to get the member \<^verbatim>\<open>x-group-name\<close>. \<^verbatim>\<open>_.each\<close> takes the
  path item of \<^verbatim>\<open>/a\<close> for an array of length 0 and never sees its operation: nothing
  is written to it, and its resource stays outside the group.
\<close>

theorem parse_length_in_path:
  "map_option source_after (parse accepting length_in_path False) =
     Some (JObj [(''swagger'', JStr ''2.0''),
       (''paths'', JObj [
          (''/a'', JObj [(''get'', JObj [(''tags'', JArr [JStr ''pets''])]),
                         (''length'', JNum 0)]),
          (''/b'', JObj [(''get'', JObj [(''tags'', JArr [JStr ''pets''])]),
                         (''x-group-name'', JStr ''pets'')])]),
       (''info'', JObj [])]) \<and>
   map_option (\<lambda>out. map (\<lambda>(e, result). map kinds (api_categories result)) (done_calls out))
     (parse accepting length_in_path False) =
     Some [[[(''resource'', [], None),
             (''category'', [''resourceGroup''], Some (JStr ''pets''))]]]"
  by code_simp



end
